theory Spec2Isabelle
  imports Complex_Main
begin

section \<open>The windowed decoding loop of faster-whisper (transcribe.py)\<close>

text \<open>
  A shallow embedding of \<^verbatim>\<open>WhisperModel.generate_segments\<close>,
  \<^verbatim>\<open>WhisperModel.generate_with_fallback\<close> and \<^verbatim>\<open>WhisperModel.get_prompt\<close>.

  Conventions of the embedding:
  \<^item> Python \<^verbatim>\<open>int\<close> is \<open>int\<close>; list positions produced by \<^verbatim>\<open>range(len(tokens))\<close> are \<open>nat\<close>.
  \<^item> Python \<^verbatim>\<open>float\<close> is idealised as \<open>real\<close>: the theorems below are about which
    expression is computed and which branch is taken, not about rounding.
  \<^item> A Python \<^verbatim>\<open>str\<close> is the list of its Unicode code points (\<open>nat list\<close>), since
    \<^verbatim>\<open>str.strip()\<close> works on code points.
  \<^item> Every exception the code can raise is a value \<open>Inl e\<close> of a sum type.
  \<^item> The CTranslate2 model, the tokenizer, the feature extractor's constants and zlib are
    collaborators that are not part of the file: they are parameters of the embedding. The
    model is called with an explicit model state \<open>'m\<close>, so that sampling at a positive
    temperature may answer differently on every call.
\<close>

subsection \<open>Python values\<close>

datatype py_error = IndexError | AttributeError | ZeroDivisionError | CollaboratorError

type_synonym py_str = "nat list"

text \<open>The code points for which \<^verbatim>\<open>str.isspace\<close> holds; \<^verbatim>\<open>str.strip()\<close> removes them at both ends.\<close>

definition isspace :: "nat \<Rightarrow> bool" where
  "isspace c \<longleftrightarrow>
     (9 \<le> c \<and> c \<le> 13) \<or> (28 \<le> c \<and> c \<le> 32) \<or> c = 133 \<or> c = 160 \<or> c = 5760 \<or>
     (8192 \<le> c \<and> c \<le> 8202) \<or> c = 8232 \<or> c = 8233 \<or> c = 8239 \<or> c = 8287 \<or> c = 12288"

definition strip :: "py_str \<Rightarrow> py_str" where
  "strip s = rev (dropWhile isspace (rev (dropWhile isspace s)))"

text \<open>A slice bound of Python: a negative bound counts from the end, and both are clamped.\<close>

definition py_bound :: "nat \<Rightarrow> int \<Rightarrow> nat" where
  "py_bound n i = (if i < 0 then nat (max 0 (int n + i)) else min (nat i) n)"

definition py_slice :: "'a list \<Rightarrow> int option \<Rightarrow> int option \<Rightarrow> 'a list" where
  "py_slice xs lo hi =
     (let n = length xs;
          l = (case lo of None \<Rightarrow> 0 | Some i \<Rightarrow> py_bound n i);
          h = (case hi of None \<Rightarrow> n | Some j \<Rightarrow> py_bound n j)
      in take (h - l) (drop l xs))"

text \<open>Indexing \<^verbatim>\<open>xs[i]\<close>: a negative index counts from the end, out of range raises.\<close>

definition py_get :: "'a list \<Rightarrow> int \<Rightarrow> py_error + 'a" where
  "py_get xs i =
     (let j = (if i < 0 then int (length xs) + i else i)
      in if j < 0 \<or> int (length xs) \<le> j then Inl IndexError else Inr (xs ! nat j))"

text \<open>
  \<^verbatim>\<open>seq_len ** length_penalty\<close> for a length \<open>n \<ge> 0\<close>: Python gives \<open>0 ** 0 = 1\<close>,
  \<open>0 ** a = 0\<close> for \<open>a > 0\<close>, and raises ZeroDivisionError for \<open>0 ** a\<close> with \<open>a < 0\<close>.
\<close>

definition py_pow :: "nat \<Rightarrow> real \<Rightarrow> py_error + real" where
  "py_pow n a =
     (if n = 0 then (if a = 0 then Inr 1 else if 0 < a then Inr 0 else Inl ZeroDivisionError)
      else Inr (real n powr a))"

text \<open>\<^verbatim>\<open>round(x)\<close> of Python 3: to the nearest integer, a tie to the even one.\<close>

definition py_round :: "real \<Rightarrow> int" where
  "py_round x =
     (let f = \<lfloor>x\<rfloor>; d = x - of_int f
      in if d < 1 / 2 then f else if 1 / 2 < d then f + 1 else if even f then f else f + 1)"

subsection \<open>Records of the module\<close>

record segment =
  seg_start :: real
  seg_end :: real
  seg_text :: py_str

record transcription_options =
  beam_size :: int
  best_of :: int
  patience :: real
  length_penalty :: real
  log_prob_threshold :: "real option"
  no_speech_threshold :: "real option"
  compression_ratio_threshold :: "real option"
  condition_on_previous_text :: bool
  temperatures :: "real list"
  initial_prompt :: "py_str option"
  prefix :: "py_str option"
  suppress_blank :: bool
  suppress_tokens :: "int list option"
  without_timestamps :: bool
  max_initial_timestamp :: real

text \<open>The dictionaries \<^verbatim>\<open>dict(start=..., end=..., tokens=...)\<close> of \<^verbatim>\<open>current_segments\<close>.\<close>

record raw_segment =
  rs_start :: real
  rs_end :: real
  rs_tokens :: "int list"

subsection \<open>Collaborators\<close>

text \<open>
  Modelled from the spec: the class \<^verbatim>\<open>Tokenizer\<close> of \<^verbatim>\<open>faster_whisper.tokenizer\<close> is not
  in the file. The loop uses its special tokens, \<^verbatim>\<open>encode\<close> and \<^verbatim>\<open>decode\<close>.
\<close>

record tokenizer =
  timestamp_begin :: int
  sot_prev :: int
  sot_sequence :: "int list"
  no_timestamps :: int
  encode :: "py_str \<Rightarrow> int list"
  decode :: "int list \<Rightarrow> py_str"

text \<open>The fields of a \<^verbatim>\<open>ctranslate2\<close> generation result that the loop reads.\<close>

record whisper_result =
  sequences_ids :: "int list list"
  scores :: "real list"
  no_speech_prob :: real

text \<open>The keyword arguments chosen per temperature, and the whole call of \<^verbatim>\<open>model.generate\<close>.\<close>

datatype decode_kwargs =
    Sampling (kw_beam_size: int) (kw_num_hypotheses: int) (kw_sampling_topk: int)
      (kw_sampling_temperature: real)
  | BeamSearch (kw_beam_size: int) (kw_patience: real)

record 'f generate_call =
  call_features :: "'f list"
  call_prompts :: "int list list"
  call_length_penalty :: real
  call_max_length :: int
  call_return_scores :: bool
  call_return_no_speech_prob :: bool
  call_suppress_blank :: bool
  call_suppress_tokens :: "int list option"
  call_max_initial_timestamp_index :: int
  call_kwargs :: decode_kwargs

text \<open>
  The object \<^verbatim>\<open>self\<close>: the model's \<^verbatim>\<open>generate\<close> (it may raise, and it threads its own
  state), the two constants of the feature extractor (Modelled from the spec:
  \<^verbatim>\<open>FeatureExtractor\<close> is not in the file; \<^verbatim>\<open>nb_max_frames\<close> is the window length in
  frames and \<^verbatim>\<open>time_per_frame\<close> the seconds per frame), and \<^verbatim>\<open>get_compression_ratio\<close>,
  whose value is a quotient of byte lengths computed by zlib.
\<close>

record ('f, 'm) whisper_model =
  generate :: "'m \<Rightarrow> 'f generate_call \<Rightarrow> py_error + (whisper_result list \<times> 'm)"
  nb_max_frames :: int
  time_per_frame :: real
  get_compression_ratio :: "py_str \<Rightarrow> real"

text \<open>The attributes set in \<^verbatim>\<open>__init__\<close>.\<close>

definition input_stride :: int where
  "input_stride = 2"

definition time_precision :: real where
  "time_precision = 2 / 100"

definition max_length :: int where
  "max_length = 448"

subsection \<open>get\_prompt\<close>

definition get_prompt :: "tokenizer \<Rightarrow> int list \<Rightarrow> bool \<Rightarrow> py_str option \<Rightarrow> int list" where
  "get_prompt tok previous_tokens without_ts pfx =
     (let prompt = [];
          prompt = (if previous_tokens \<noteq> []
                    then (prompt @ [sot_prev tok]) @
                         py_slice previous_tokens (Some (- (max_length div 2 - 1))) None
                    else prompt);
          prompt = prompt @ sot_sequence tok;
          prompt = (if without_ts then prompt @ [no_timestamps tok] else prompt);
          prompt = (case pfx of
                      None \<Rightarrow> prompt
                    | Some p \<Rightarrow>
                        if p = [] then prompt
                        else (let prefix_tokens = encode tok (32 # strip p);
                                  prefix_tokens =
                                    (if max_length div 2 \<le> int (length prefix_tokens)
                                     then py_slice prefix_tokens None (Some (max_length div 2 - 1))
                                     else prefix_tokens)
                              in prompt @ prefix_tokens))
      in prompt)"

subsection \<open>generate\_with\_fallback\<close>

text \<open>
  One pass through the body of the loop over \<^verbatim>\<open>options.temperatures\<close>: the call of the
  model, the recovered average log probability and the flag \<^verbatim>\<open>needs_fallback\<close>.
\<close>

definition decode_attempt ::
  "('f, 'm) whisper_model \<Rightarrow> tokenizer \<Rightarrow> transcription_options \<Rightarrow> 'f list \<Rightarrow> int list \<Rightarrow>
   int \<Rightarrow> real \<Rightarrow> 'm \<Rightarrow> py_error + ((whisper_result \<times> real \<times> bool) \<times> 'm)" where
  "decode_attempt w tok opts features prompt max_initial_timestamp_index temperature m =
     (let kwargs = (if 0 < temperature
                    then Sampling 1 (best_of opts) 0 temperature
                    else BeamSearch (beam_size opts) (patience opts))
      in case generate w m
                \<lparr>call_features = features, call_prompts = [prompt],
                 call_length_penalty = length_penalty opts, call_max_length = max_length,
                 call_return_scores = True, call_return_no_speech_prob = True,
                 call_suppress_blank = suppress_blank opts,
                 call_suppress_tokens = suppress_tokens opts,
                 call_max_initial_timestamp_index = max_initial_timestamp_index,
                 call_kwargs = kwargs\<rparr> of
           Inl e \<Rightarrow> Inl e
         | Inr (results, m') \<Rightarrow>
             (case results of
                [] \<Rightarrow> Inl IndexError
              | result # _ \<Rightarrow>
                  (case sequences_ids result of
                     [] \<Rightarrow> Inl IndexError
                   | tokens # _ \<Rightarrow>
                       (let seq_len = length tokens
                        in case scores result of
                             [] \<Rightarrow> Inl IndexError
                           | score # _ \<Rightarrow>
                               (case py_pow seq_len (length_penalty opts) of
                                  Inl e \<Rightarrow> Inl e
                                | Inr p \<Rightarrow>
                                    (let cum_log_prob = score * p;
                                         avg_log_prob = cum_log_prob / (real seq_len + 1);
                                         text = strip (decode tok tokens);
                                         compression_ratio = get_compression_ratio w text;
                                         needs_fallback = False;
                                         needs_fallback =
                                           (case compression_ratio_threshold opts of
                                              None \<Rightarrow> needs_fallback
                                            | Some c \<Rightarrow>
                                                if c < compression_ratio then True
                                                else needs_fallback);
                                         needs_fallback =
                                           (case log_prob_threshold opts of
                                              None \<Rightarrow> needs_fallback
                                            | Some l \<Rightarrow>
                                                if avg_log_prob < l then True
                                                else needs_fallback)
                                     in Inr ((result, avg_log_prob, needs_fallback), m')))))))"

text \<open>
  The loop itself. The accumulator holds \<^verbatim>\<open>(result, avg_log_prob, final_temperature)\<close>,
  which are \<^verbatim>\<open>None\<close> together before the first pass; \<^verbatim>\<open>break\<close> returns at once.
\<close>

fun fallback_loop ::
  "('f, 'm) whisper_model \<Rightarrow> tokenizer \<Rightarrow> transcription_options \<Rightarrow> 'f list \<Rightarrow> int list \<Rightarrow>
   int \<Rightarrow> real list \<Rightarrow> (whisper_result \<times> real \<times> real) option \<Rightarrow> 'm \<Rightarrow>
   py_error + ((whisper_result \<times> real \<times> real) option \<times> 'm)" where
  "fallback_loop w tok opts features prompt mi [] acc m = Inr (acc, m)"
| "fallback_loop w tok opts features prompt mi (temperature # rest) acc m =
     (case decode_attempt w tok opts features prompt mi temperature m of
        Inl e \<Rightarrow> Inl e
      | Inr ((result, avg_log_prob, needs_fallback), m') \<Rightarrow>
          if \<not> needs_fallback then Inr (Some (result, avg_log_prob, temperature), m')
          else fallback_loop w tok opts features prompt mi rest
                 (Some (result, avg_log_prob, temperature)) m')"

definition generate_with_fallback ::
  "('f, 'm) whisper_model \<Rightarrow> 'f list \<Rightarrow> int list \<Rightarrow> tokenizer \<Rightarrow> transcription_options \<Rightarrow>
   'm \<Rightarrow> py_error + ((whisper_result \<times> real \<times> real) option \<times> 'm)" where
  "generate_with_fallback w segment prompt tok opts m =
     (let features = segment;
          max_initial_timestamp_index = py_round (max_initial_timestamp opts / time_precision)
      in fallback_loop w tok opts features prompt max_initial_timestamp_index
           (temperatures opts) None m)"

subsection \<open>generate\_segments\<close>

text \<open>The loop variables, the state of the model, and the segments yielded so far.\<close>

record 'm loop_state =
  seek :: int
  all_tokens :: "int list"
  prompt_reset_since :: nat
  yielded :: "segment list"
  model_state :: 'm

definition initial_state :: "tokenizer \<Rightarrow> transcription_options \<Rightarrow> 'm \<Rightarrow> 'm loop_state" where
  "initial_state tok opts m =
     \<lparr>seek = 0,
      all_tokens = (case initial_prompt opts of
                      None \<Rightarrow> []
                    | Some p \<Rightarrow> [] @ encode tok (32 # strip p)),
      prompt_reset_since = 0,
      yielded = [],
      model_state = m\<rparr>"

definition content_frames :: "('f, 'm) whisper_model \<Rightarrow> 'f list \<Rightarrow> int" where
  "content_frames w features = int (length features) - nb_max_frames w"

definition segment_size :: "('f, 'm) whisper_model \<Rightarrow> 'f list \<Rightarrow> int \<Rightarrow> int" where
  "segment_size w features sk = min (nb_max_frames w) (content_frames w features - sk)"

definition previous_tokens :: "'m loop_state \<Rightarrow> int list" where
  "previous_tokens st = py_slice (all_tokens st) (Some (int (prompt_reset_since st))) None"

definition window_prompt :: "tokenizer \<Rightarrow> transcription_options \<Rightarrow> 'm loop_state \<Rightarrow> int list" where
  "window_prompt tok opts st =
     get_prompt tok (previous_tokens st) (without_timestamps opts) (prefix opts)"

text \<open>Lines 256 to 267: the value of \<^verbatim>\<open>should_skip\<close> when a no-speech threshold is set.\<close>

definition should_skip :: "transcription_options \<Rightarrow> whisper_result \<Rightarrow> real \<Rightarrow> bool" where
  "should_skip opts result avg_log_prob =
     (case no_speech_threshold opts of
        None \<Rightarrow> False
      | Some nst \<Rightarrow>
          (let skip = (nst < no_speech_prob result);
               skip = (case log_prob_threshold opts of
                         None \<Rightarrow> skip
                       | Some l \<Rightarrow> if l < avg_log_prob then False else skip)
           in skip))"

definition single_timestamp_ending :: "int \<Rightarrow> int list \<Rightarrow> bool" where
  "single_timestamp_ending tb tokens \<longleftrightarrow>
     2 \<le> length tokens \<and> tokens ! (length tokens - 2) < tb \<and> tb \<le> tokens ! (length tokens - 1)"

definition consecutive_timestamps :: "int \<Rightarrow> int list \<Rightarrow> nat list" where
  "consecutive_timestamps tb tokens =
     filter (\<lambda>i. 0 < i \<and> tb \<le> tokens ! i \<and> tb \<le> tokens ! (i - 1)) [0..<length tokens]"

text \<open>
  The loop over \<^verbatim>\<open>slices\<close> (lines 295 to 314); \<^verbatim>\<open>sliced_tokens[0]\<close> raises on an empty
  slice. It returns the segments and the final \<^verbatim>\<open>last_slice\<close>.
\<close>

fun slice_loop ::
  "int list \<Rightarrow> int \<Rightarrow> real \<Rightarrow> nat \<Rightarrow> nat list \<Rightarrow> raw_segment list \<Rightarrow>
   py_error + (raw_segment list \<times> nat)" where
  "slice_loop tokens tb time_offset last_slice [] current_segments =
     Inr (current_segments, last_slice)"
| "slice_loop tokens tb time_offset last_slice (current_slice # rest) current_segments =
     (let sliced_tokens = py_slice tokens (Some (int last_slice)) (Some (int current_slice))
      in case py_get sliced_tokens 0 of
           Inl e \<Rightarrow> Inl e
         | Inr first_token \<Rightarrow>
             (case py_get sliced_tokens (- 1) of
                Inl e \<Rightarrow> Inl e
              | Inr last_token \<Rightarrow>
                  (let start_timestamp_position = first_token - tb;
                       end_timestamp_position = last_token - tb;
                       start_time = time_offset
                                    + real_of_int start_timestamp_position * time_precision;
                       end_time = time_offset
                                  + real_of_int end_timestamp_position * time_precision
                   in slice_loop tokens tb time_offset current_slice rest
                        (current_segments @
                         [\<lparr>rs_start = start_time, rs_end = end_time,
                           rs_tokens = sliced_tokens\<rparr>]))))"

text \<open>
  Lines 274 to 339: from the tokens of the window to \<^verbatim>\<open>current_segments\<close> and the amount
  added to \<^verbatim>\<open>seek\<close>.
\<close>

definition split_by_timestamps ::
  "int \<Rightarrow> real \<Rightarrow> int \<Rightarrow> real \<Rightarrow> int list \<Rightarrow> py_error + (raw_segment list \<times> int)" where
  "split_by_timestamps tb time_offset seg_size segment_duration tokens =
     (let ste = single_timestamp_ending tb tokens;
          cts = consecutive_timestamps tb tokens
      in if 0 < length cts then
           (let slices = (if ste then cts @ [length tokens] else cts)
            in case slice_loop tokens tb time_offset 0 slices [] of
                 Inl e \<Rightarrow> Inl e
               | Inr (current_segments, last_slice) \<Rightarrow>
                   if ste then Inr (current_segments, seg_size)
                   else (case py_get tokens (int last_slice - 1) of
                           Inl e \<Rightarrow> Inl e
                         | Inr t \<Rightarrow>
                             (let last_timestamp_position = t - tb
                              in Inr (current_segments,
                                      last_timestamp_position * input_stride))))
         else
           (let duration = segment_duration;
                timestamps = filter (\<lambda>token. tb \<le> token) tokens;
                duration = (if 0 < length timestamps \<and> last timestamps \<noteq> tb
                            then (let last_timestamp_position = last timestamps - tb
                                  in real_of_int last_timestamp_position * time_precision)
                            else duration)
            in Inr ([\<lparr>rs_start = time_offset, rs_end = time_offset + duration,
                       rs_tokens = tokens\<rparr>], seg_size)))"

text \<open>
  Lines 344 to 356: the loop over \<^verbatim>\<open>current_segments\<close>, on the pair of \<^verbatim>\<open>all_tokens\<close> and
  the segments yielded so far.
\<close>

fun emit_segments ::
  "tokenizer \<Rightarrow> raw_segment list \<Rightarrow> int list \<times> segment list \<Rightarrow> int list \<times> segment list" where
  "emit_segments tok [] (toks, out) = (toks, out)"
| "emit_segments tok (sg # rest) (toks, out) =
     (let tokens = rs_tokens sg;
          toks = toks @ tokens;
          text = decode tok tokens
      in if strip text = [] then emit_segments tok rest (toks, out)
         else emit_segments tok rest
                (toks, out @ [\<lparr>seg_start = rs_start sg, seg_end = rs_end sg, seg_text = text\<rparr>]))"

text \<open>
  One pass through the body of \<^verbatim>\<open>while seek < content_frames\<close>. The window was skipped
  when \<^verbatim>\<open>continue\<close> was reached (\<open>skip_window\<close>), and processed otherwise
  (\<open>process_window\<close>).
\<close>

definition skip_window :: "int \<Rightarrow> 'm \<Rightarrow> 'm loop_state \<Rightarrow> 'm loop_state" where
  "skip_window seg_size m' st = st\<lparr>seek := seek st + seg_size, model_state := m'\<rparr>"

definition process_window ::
  "tokenizer \<Rightarrow> transcription_options \<Rightarrow> real \<Rightarrow> int \<Rightarrow> real \<Rightarrow> whisper_result \<Rightarrow> real \<Rightarrow>
   'm \<Rightarrow> 'm loop_state \<Rightarrow> py_error + 'm loop_state" where
  "process_window tok opts time_offset seg_size segment_duration result temperature m' st =
     (case sequences_ids result of
        [] \<Rightarrow> Inl IndexError
      | tokens # _ \<Rightarrow>
          (case split_by_timestamps (timestamp_begin tok) time_offset seg_size
                  segment_duration tokens of
             Inl e \<Rightarrow> Inl e
           | Inr (current_segments, advance) \<Rightarrow>
               (let sk = seek st + advance;
                    reset = (if \<not> condition_on_previous_text opts \<or> 1 / 2 < temperature
                             then length (all_tokens st)
                             else prompt_reset_since st);
                    (toks, out) = emit_segments tok current_segments (all_tokens st, yielded st)
                in Inr \<lparr>seek = sk, all_tokens = toks, prompt_reset_since = reset,
                        yielded = out, model_state = m'\<rparr>)))"

definition window_step ::
  "('f, 'm) whisper_model \<Rightarrow> tokenizer \<Rightarrow> transcription_options \<Rightarrow> 'f list \<Rightarrow>
   'm loop_state \<Rightarrow> py_error + 'm loop_state" where
  "window_step w tok opts features st =
     (let time_offset = real_of_int (seek st) * time_per_frame w;
          segment = py_slice features (Some (seek st)) (Some (seek st + nb_max_frames w));
          seg_size = segment_size w features (seek st);
          segment_duration = real_of_int seg_size * time_per_frame w;
          prompt = window_prompt tok opts st
      in case generate_with_fallback w segment prompt tok opts (model_state st) of
           Inl e \<Rightarrow> Inl e
         | Inr (None, m') \<Rightarrow> Inl AttributeError
         | Inr (Some (result, avg_log_prob, temperature), m') \<Rightarrow>
             if should_skip opts result avg_log_prob then Inr (skip_window seg_size m' st)
             else process_window tok opts time_offset seg_size segment_duration result
                    temperature m' st)"

text \<open>
  The \<^verbatim>\<open>while\<close> loop. Nothing in the loop bounds the number of passes, so the function is
  partial: \<open>None\<close> is a loop that runs forever, \<open>Some (Inl e)\<close> an exception, and
  \<open>Some (Inr st)\<close> the state when the loop is left.
\<close>

partial_function (option) segments_loop ::
  "('f, 'm) whisper_model \<Rightarrow> tokenizer \<Rightarrow> transcription_options \<Rightarrow> 'f list \<Rightarrow>
   'm loop_state \<Rightarrow> (py_error + 'm loop_state) option" where
  "segments_loop w tok opts features st =
     (if seek st < content_frames w features
      then (case window_step w tok opts features st of
              Inl e \<Rightarrow> Some (Inl e)
            | Inr st' \<Rightarrow> segments_loop w tok opts features st')
      else Some (Inr st))"

definition generate_segments ::
  "('f, 'm) whisper_model \<Rightarrow> 'f list \<Rightarrow> tokenizer \<Rightarrow> transcription_options \<Rightarrow> 'm \<Rightarrow>
   (py_error + 'm loop_state) option" where
  "generate_segments w features tok opts m =
     segments_loop w tok opts features (initial_state tok opts m)"

subsection \<open>Notions used to state the properties\<close>

text \<open>
  The positions at which the window's tokens are cut: the consecutive timestamp pairs, and
  the end of the sequence when it ends in a single timestamp.
\<close>

definition slices_of :: "int \<Rightarrow> int list \<Rightarrow> nat list" where
  "slices_of tb tokens =
     consecutive_timestamps tb tokens @
     (if single_timestamp_ending tb tokens then [length tokens] else [])"

text \<open>
  The segment of the chunk between two cut positions: its times are the offsets of the
  chunk's first and last token from \<open>timestamp_begin\<close>, scaled and shifted.
\<close>

definition chunk_segment :: "int list \<Rightarrow> int \<Rightarrow> real \<Rightarrow> nat \<times> nat \<Rightarrow> raw_segment" where
  "chunk_segment tokens tb time_offset ab =
     (let chunk = take (snd ab - fst ab) (drop (fst ab) tokens)
      in \<lparr>rs_start = time_offset + real_of_int (hd chunk - tb) * time_precision,
          rs_end = time_offset + real_of_int (last chunk - tb) * time_precision,
          rs_tokens = chunk\<rparr>)"

text \<open>
  The temperatures of a list were all tried in order, from model state \<open>m\<close>, and every
  attempt asked for a fallback: the model state afterwards.
\<close>

fun all_fail ::
  "('f, 'm) whisper_model \<Rightarrow> tokenizer \<Rightarrow> transcription_options \<Rightarrow> 'f list \<Rightarrow> int list \<Rightarrow>
   int \<Rightarrow> real list \<Rightarrow> 'm \<Rightarrow> 'm option" where
  "all_fail w tok opts features prompt mi [] m = Some m"
| "all_fail w tok opts features prompt mi (t # ts) m =
     (case decode_attempt w tok opts features prompt mi t m of
        Inl e \<Rightarrow> None
      | Inr ((result, avg_log_prob, needs_fallback), m') \<Rightarrow>
          if needs_fallback then all_fail w tok opts features prompt mi ts m' else None)"

text \<open>The quality gate in the words of the specification.\<close>

definition quality_gate_fails ::
  "('f, 'm) whisper_model \<Rightarrow> tokenizer \<Rightarrow> transcription_options \<Rightarrow> whisper_result \<Rightarrow> real \<Rightarrow>
   bool" where
  "quality_gate_fails w tok opts result avg \<longleftrightarrow>
     (\<exists>c. compression_ratio_threshold opts = Some c \<and>
          c < get_compression_ratio w (strip (decode tok (hd (sequences_ids result))))) \<or>
     (\<exists>l. log_prob_threshold opts = Some l \<and> avg < l)"

text \<open>
  A window stalls when its tokens have a consecutive timestamp pair, do not end in a single
  timestamp, and the token at position \<open>last_slice - 1\<close>, the first timestamp of the last
  consecutive pair, is \<open>timestamp_begin\<close> itself.
\<close>

definition stalls :: "int \<Rightarrow> int list \<Rightarrow> bool" where
  "stalls tb tokens \<longleftrightarrow>
     consecutive_timestamps tb tokens \<noteq> [] \<and> \<not> single_timestamp_ending tb tokens \<and>
     tokens ! (last (consecutive_timestamps tb tokens) - 1) = tb"

definition never_stalls :: "('f, 'm) whisper_model \<Rightarrow> int \<Rightarrow> bool" where
  "never_stalls w tb \<longleftrightarrow>
     (\<forall>m call r rs m' tokens rest.
        generate w m call = Inr (r # rs, m') \<and> sequences_ids r = tokens # rest
        \<longrightarrow> \<not> stalls tb tokens)"

subsection \<open>Concrete collaborators for the examples\<close>

text \<open>
  A toy tokenizer with the special tokens of the multilingual vocabulary: a text token is
  the code point it stands for, special tokens decode to nothing.
\<close>

definition demo_tokenizer :: tokenizer where
  "demo_tokenizer =
     \<lparr>timestamp_begin = 50364, sot_prev = 50361, sot_sequence = [50258, 50259, 50359],
      no_timestamps = 50363, encode = map int,
      decode = (\<lambda>ts. map nat (filter (\<lambda>t. t < 50257) ts))\<rparr>"

text \<open>The default arguments of \<^verbatim>\<open>transcribe\<close>.\<close>

definition default_options :: transcription_options where
  "default_options =
     \<lparr>beam_size = 5, best_of = 5, patience = 1, length_penalty = 1,
      log_prob_threshold = Some (- 1), no_speech_threshold = Some (6 / 10),
      compression_ratio_threshold = Some (24 / 10), condition_on_previous_text = True,
      temperatures = [0, 2 / 10, 4 / 10, 6 / 10, 8 / 10, 1],
      initial_prompt = None, prefix = None, suppress_blank = True,
      suppress_tokens = Some [- 1], without_timestamps = False,
      max_initial_timestamp = 1\<rparr>"

text \<open>
  A model that answers every call with the same result, with 30-second windows of 3000
  frames; and one that answers beam search with one result and sampling with another.
\<close>

definition constant_model :: "whisper_result \<Rightarrow> (nat, unit) whisper_model" where
  "constant_model r =
     \<lparr>generate = (\<lambda>m call. Inr ([r], m)), nb_max_frames = 3000, time_per_frame = 1 / 100,
      get_compression_ratio = (\<lambda>text. 1)\<rparr>"

definition ladder_model :: "whisper_result \<Rightarrow> whisper_result \<Rightarrow> (nat, unit) whisper_model" where
  "ladder_model r0 r1 =
     \<lparr>generate = (\<lambda>m call. case call_kwargs call of
                              BeamSearch b p \<Rightarrow> Inr ([r0], m)
                            | Sampling b n k t \<Rightarrow> Inr ([r1], m)),
      nb_max_frames = 3000, time_per_frame = 1 / 100,
      get_compression_ratio = (\<lambda>text. 1)\<rparr>"

text \<open>
  Two results with the same four tokens: one whose score fails the log-probability gate, and
  one that passes it and has a high no-speech probability.
\<close>

definition low_result :: whisper_result where
  "low_result =
     \<lparr>sequences_ids = [[50364, 104, 105, 50414]], scores = [- 2], no_speech_prob = 1 / 10\<rparr>"

definition good_result :: whisper_result where
  "good_result =
     \<lparr>sequences_ids = [[50364, 104, 105, 50414]], scores = [- 1 / 4],
      no_speech_prob = 9 / 10\<rparr>"

text \<open>A result with a failing score and a high no-speech probability.\<close>

definition silent_result :: whisper_result where
  "silent_result =
     \<lparr>sequences_ids = [[50364, 104, 105, 50414]], scores = [- 2], no_speech_prob = 9 / 10\<rparr>"

text \<open>
  The default options with \<^verbatim>\<open>condition_on_previous_text=False\<close> and the initial prompt
  \<^verbatim>\<open>"hi"\<close>.
\<close>

definition no_context_options :: transcription_options where
  "no_context_options =
     default_options\<lparr>condition_on_previous_text := False, initial_prompt := Some [104, 105]\<rparr>"

text \<open>A result whose tokens are the timestamp \<open>0.0s\<close> twice.\<close>

definition stall_result :: whisper_result where
  "stall_result = \<lparr>sequences_ids = [[50364, 50364]], scores = [- 1 / 4], no_speech_prob = 1 / 10\<rparr>"

text \<open>
  A result with an unfinished segment, \<open>0.0s h i 1.0s 1.0s j\<close>; and one whose first segment
  is blank, \<open>0.0s " " 1.0s 1.0s h i 2.0s\<close>.
\<close>

definition unfinished_result :: whisper_result where
  "unfinished_result =
     \<lparr>sequences_ids = [[50364, 104, 105, 50414, 50414, 106]], scores = [- 1 / 4],
      no_speech_prob = 1 / 10\<rparr>"

definition blank_result :: whisper_result where
  "blank_result =
     \<lparr>sequences_ids = [[50364, 32, 50414, 50414, 104, 105, 50464]], scores = [- 1 / 4],
      no_speech_prob = 1 / 10\<rparr>"

text \<open>The default options with the initial prompt \<^verbatim>\<open>" hi "\<close>.\<close>

definition prompted_options :: transcription_options where
  "prompted_options = default_options\<lparr>initial_prompt := Some [32, 104, 105, 32]\<rparr>"

section \<open>Properties\<close>

subsection \<open>Slices and indexing\<close>

lemma slice_from: "py_slice xs (Some (int k)) None = drop k xs"
  by (cases "k \<le> length xs") (simp_all add: py_slice_def py_bound_def min_def)

lemma slice_last_n: "0 < k \<Longrightarrow> py_slice xs (Some (- int k)) None = drop (length xs - k) xs"
proof -
  assume k: "0 < k"
  have "nat (max 0 (int (length xs) - int k)) = length xs - k"
    by arith
  with k show ?thesis
    by (simp add: py_slice_def py_bound_def)
qed

lemma slice_to: "py_slice xs None (Some (int k)) = take k xs"
  by (cases "k \<le> length xs") (simp_all add: py_slice_def py_bound_def min_def)

lemma slice_between:
  "a \<le> b \<Longrightarrow> b \<le> length xs \<Longrightarrow>
   py_slice xs (Some (int a)) (Some (int b)) = take (b - a) (drop a xs)"
  by (simp add: py_slice_def py_bound_def min_def)

subsection \<open>The prompt\<close>

text \<open>
  Claim C8, as stated, puts the encoded prefix in the prompt whenever a prefix is supplied.
  The test \<^verbatim>\<open>if prefix:\<close> is false for the empty string, so an empty prefix adds nothing,
  although the encoding of the single space is not empty.
\<close>

theorem get_prompt_empty_prefix_counterexample:
  "get_prompt demo_tokenizer [] False (Some [])
     \<noteq> sot_sequence demo_tokenizer
        @ take (nat (max_length div 2 - 1)) (encode demo_tokenizer (32 # strip []))"
  by (simp add: get_prompt_def demo_tokenizer_def strip_def isspace_def max_length_def)

text \<open>
  Claim C8, amended. The prompt is: when the context is not empty, the previous-text marker
  and the last \<open>max_length div 2 - 1\<close> tokens of the context (all of it when it is shorter);
  then the task and language sequence; then the no-timestamps marker when
  \<open>without_timestamps\<close> is set; then, when a prefix is given and is not the empty string, the
  first \<open>max_length div 2 - 1\<close> tokens of the encoding of a space and the stripped prefix.
\<close>

theorem get_prompt_layout:
  "get_prompt tok prev wt pfx =
     (if prev \<noteq> [] then sot_prev tok # drop (length prev - nat (max_length div 2 - 1)) prev
      else [])
     @ sot_sequence tok
     @ (if wt then [no_timestamps tok] else [])
     @ (case pfx of
          None \<Rightarrow> []
        | Some p \<Rightarrow> if p = [] then []
                    else take (nat (max_length div 2 - 1)) (encode tok (32 # strip p)))"
proof -
  have n: "nat (max_length div 2 - 1) = 223"
    by (simp add: max_length_def)
  have a: "py_slice prev (Some (- (max_length div 2 - 1))) None = drop (length prev - 223) prev"
    using slice_last_n [of 223 prev] by (simp add: max_length_def)
  have b: "py_slice ts None (Some (max_length div 2 - 1)) = take 223 ts" for ts :: "int list"
    using slice_to [of ts 223] by (simp add: max_length_def)
  have c: "max_length div 2 \<le> int (length ts) \<longleftrightarrow> 224 \<le> length ts" for ts :: "int list"
    by (simp add: max_length_def)
  show ?thesis
    unfolding get_prompt_def Let_def a b c n
    by (simp split: option.splits)
qed

theorem get_prompt_layout_witness:
  "get_prompt demo_tokenizer (replicate 300 7) True (Some [32, 104, 105])
     = 50361 # replicate 223 7 @ [50258, 50259, 50359, 50363, 32, 104, 105]"
  using get_prompt_layout [of demo_tokenizer "replicate 300 7" True "Some [32, 104, 105]"]
  by (simp add: demo_tokenizer_def strip_def isspace_def max_length_def)

subsection \<open>The fallback loop\<close>

lemma decode_attempt_flag:
  assumes "decode_attempt w tok opts features prompt mi t m = Inr ((r, avg, nf), m')"
  shows "nf = quality_gate_fails w tok opts r avg"
  using assms
  by (auto simp: decode_attempt_def quality_gate_fails_def Let_def
           split: sum.splits list.splits option.splits prod.splits if_splits)

lemma decode_attempt_avg:
  assumes "decode_attempt w tok opts features prompt mi t m = Inr ((r, avg, nf), m')"
  shows "\<exists>tokens rest score rest' p.
           sequences_ids r = tokens # rest \<and> scores r = score # rest' \<and>
           py_pow (length tokens) (length_penalty opts) = Inr p \<and>
           avg = score * p / (real (length tokens) + 1)"
  using assms
  by (auto simp: decode_attempt_def Let_def
           split: sum.splits list.splits option.splits prod.splits if_splits)

lemma fallback_loop_intro:
  assumes "all_fail w tok opts features prompt mi pre m = Some m1"
    and "decode_attempt w tok opts features prompt mi t m1 = Inr ((r, avg, nf), m')"
    and "\<not> nf \<or> post = []"
  shows "fallback_loop w tok opts features prompt mi (pre @ t # post) acc m
         = Inr (Some (r, avg, t), m')"
  using assms
proof (induction pre arbitrary: acc m)
  case Nil
  then show ?case by auto
next
  case (Cons a pre)
  from Cons.prems(1) obtain r0 avg0 m0 where
    a: "decode_attempt w tok opts features prompt mi a m = Inr ((r0, avg0, True), m0)"
    and rest: "all_fail w tok opts features prompt mi pre m0 = Some m1"
    by (auto split: sum.splits prod.splits if_splits)
  from Cons.IH [OF rest Cons.prems(2) Cons.prems(3)] a show ?case
    by simp
qed

lemma fallback_loop_elim:
  assumes "fallback_loop w tok opts features prompt mi temps acc m = Inr (Some (r, avg, t), m')"
  shows "(temps = [] \<and> acc = Some (r, avg, t) \<and> m' = m) \<or>
     (\<exists>pre post m1 nf.
        temps = pre @ t # post \<and>
        all_fail w tok opts features prompt mi pre m = Some m1 \<and>
        decode_attempt w tok opts features prompt mi t m1 = Inr ((r, avg, nf), m') \<and>
        (\<not> nf \<or> post = []))"
  using assms
proof (induction temps arbitrary: acc m)
  case Nil
  then show ?case by simp
next
  case (Cons a temps)
  from Cons.prems obtain r0 avg0 nf0 m0 where
    a: "decode_attempt w tok opts features prompt mi a m = Inr ((r0, avg0, nf0), m0)"
    by (auto split: sum.splits prod.splits)
  show ?case
  proof (cases nf0)
    case False
    with Cons.prems a have "r0 = r" "avg0 = avg" "a = t" "m0 = m'"
      by simp_all
    with a False have
      "a # temps = [] @ t # temps \<and>
       all_fail w tok opts features prompt mi [] m = Some m \<and>
       decode_attempt w tok opts features prompt mi t m = Inr ((r, avg, False), m') \<and>
       (\<not> False \<or> temps = [])"
      by simp
    then show ?thesis by blast
  next
    case True
    with Cons.prems a have
      rec: "fallback_loop w tok opts features prompt mi temps (Some (r0, avg0, a)) m0
            = Inr (Some (r, avg, t), m')"
      by simp
    from Cons.IH [OF rec] show ?thesis
    proof
      assume "temps = [] \<and> Some (r0, avg0, a) = Some (r, avg, t) \<and> m' = m0"
      with a True have
        "a # temps = [] @ t # [] \<and>
         all_fail w tok opts features prompt mi [] m = Some m \<and>
         decode_attempt w tok opts features prompt mi t m = Inr ((r, avg, True), m') \<and>
         (\<not> True \<or> ([]::real list) = [])"
        by simp
      then show ?thesis by blast
    next
      assume "\<exists>pre post m1 nf.
        temps = pre @ t # post \<and>
        all_fail w tok opts features prompt mi pre m0 = Some m1 \<and>
        decode_attempt w tok opts features prompt mi t m1 = Inr ((r, avg, nf), m') \<and>
        (\<not> nf \<or> post = [])"
      then obtain pre post m1 nf where
        h: "temps = pre @ t # post"
           "all_fail w tok opts features prompt mi pre m0 = Some m1"
           "decode_attempt w tok opts features prompt mi t m1 = Inr ((r, avg, nf), m')"
           "\<not> nf \<or> post = []"
        by blast
      from h a True have
        "a # temps = (a # pre) @ t # post \<and>
         all_fail w tok opts features prompt mi (a # pre) m = Some m1 \<and>
         decode_attempt w tok opts features prompt mi t m1 = Inr ((r, avg, nf), m') \<and>
         (\<not> nf \<or> post = [])"
        by simp
      then show ?thesis by blast
    qed
  qed
qed

lemma fallback_loop_None:
  "fallback_loop w tok opts features prompt mi temps acc m = Inr (None, m') \<Longrightarrow>
   temps = [] \<and> acc = None \<and> m' = m"
  by (induction temps arbitrary: acc m) (auto split: sum.splits prod.splits if_splits)

lemma generate_with_fallback_Some:
  "generate_with_fallback w segment prompt tok opts m = Inr (Some (r, avg, t), m') \<longleftrightarrow>
     (\<exists>pre post m1 nf.
        temperatures opts = pre @ t # post \<and>
        all_fail w tok opts segment prompt
          (py_round (max_initial_timestamp opts / time_precision)) pre m = Some m1 \<and>
        decode_attempt w tok opts segment prompt
          (py_round (max_initial_timestamp opts / time_precision)) t m1
          = Inr ((r, avg, nf), m') \<and>
        (\<not> nf \<or> post = []))"
  (is "?L \<longleftrightarrow> ?R")
proof
  assume ?L
  then have "fallback_loop w tok opts segment prompt
      (py_round (max_initial_timestamp opts / time_precision)) (temperatures opts) None m
      = Inr (Some (r, avg, t), m')"
    by (simp add: generate_with_fallback_def Let_def)
  from fallback_loop_elim [OF this] show ?R
    by simp
next
  assume ?R
  then obtain pre post m1 nf where
    h: "temperatures opts = pre @ t # post"
       "all_fail w tok opts segment prompt
          (py_round (max_initial_timestamp opts / time_precision)) pre m = Some m1"
       "decode_attempt w tok opts segment prompt
          (py_round (max_initial_timestamp opts / time_precision)) t m1
          = Inr ((r, avg, nf), m')"
       "\<not> nf \<or> post = []"
    by blast
  from fallback_loop_intro [OF h(2) h(3) h(4), of None] h(1) show ?L
    by (simp add: generate_with_fallback_def Let_def)
qed

text \<open>The fallback loop on the concrete models.\<close>

lemma round50: "py_round (max_initial_timestamp default_options / time_precision) = 50"
  by (simp add: py_round_def default_options_def time_precision_def Let_def)

lemma attempt_constant:
  "decode_attempt (constant_model good_result) demo_tokenizer default_options fs pr mi 0 ()
     = Inr ((good_result, - 1 / 5, False), ())"
  by (simp add: decode_attempt_def constant_model_def good_result_def demo_tokenizer_def
        default_options_def py_pow_def Let_def)

lemma gwf_constant:
  "generate_with_fallback (constant_model good_result) fs pr demo_tokenizer default_options ()
     = Inr (Some (good_result, - 1 / 5, 0), ())"
  using attempt_constant [of fs pr 50]
  by (simp add: generate_with_fallback_def round50 Let_def) (simp add: default_options_def)

lemma attempt_ladder_low:
  "decode_attempt (ladder_model low_result good_result) demo_tokenizer default_options fs pr mi
     0 () = Inr ((low_result, - 8 / 5, True), ())"
  by (simp add: decode_attempt_def ladder_model_def low_result_def demo_tokenizer_def
        default_options_def py_pow_def Let_def)

lemma attempt_ladder_good:
  "decode_attempt (ladder_model low_result good_result) demo_tokenizer default_options fs pr mi
     (2 / 10) () = Inr ((good_result, - 1 / 5, False), ())"
  by (simp add: decode_attempt_def ladder_model_def good_result_def demo_tokenizer_def
        default_options_def py_pow_def Let_def)

lemma gwf_ladder:
  "generate_with_fallback (ladder_model low_result good_result) fs pr demo_tokenizer
     default_options () = Inr (Some (good_result, - 1 / 5, 2 / 10), ())"
  using attempt_ladder_low [of fs pr 50] attempt_ladder_good [of fs pr 50]
  by (simp add: generate_with_fallback_def round50 Let_def) (simp add: default_options_def)

text \<open>
  Claim C5. The fallback decoder tries the temperatures in the given order and returns the
  first attempt that passes the quality gate: it returns \<open>(r, avg, t)\<close> exactly when the
  temperatures split as \<open>pre @ t # post\<close>, every attempt of \<open>pre\<close>, made in order, asked for
  a fallback, and the attempt at \<open>t\<close> gave \<open>r\<close> and \<open>avg\<close> and either passed the gate or was
  the last one (\<open>post = []\<close>). An attempt asks for a fallback exactly when the compression
  ratio threshold is set and the ratio is above it, or the log-probability threshold is set
  and the average log probability is below it.
\<close>

theorem fallback_returns_first_passing_attempt:
  "(generate_with_fallback w segment prompt tok opts m = Inr (Some (r, avg, t), m') \<longleftrightarrow>
     (\<exists>pre post m1 nf.
        temperatures opts = pre @ t # post \<and>
        all_fail w tok opts segment prompt
          (py_round (max_initial_timestamp opts / time_precision)) pre m = Some m1 \<and>
        decode_attempt w tok opts segment prompt
          (py_round (max_initial_timestamp opts / time_precision)) t m1
          = Inr ((r, avg, nf), m') \<and>
        (\<not> nf \<or> post = [])))
   \<and> (\<forall>mi t1 m1 r1 avg1 nf1 m2.
         decode_attempt w tok opts segment prompt mi t1 m1 = Inr ((r1, avg1, nf1), m2)
         \<longrightarrow> nf1 = quality_gate_fails w tok opts r1 avg1)"
  using generate_with_fallback_Some [of w segment prompt tok opts m r avg t m']
    decode_attempt_flag [of w tok opts segment prompt]
  by blast

theorem fallback_returns_first_passing_attempt_witness:
  "generate_with_fallback (ladder_model low_result good_result) [] [] demo_tokenizer
     default_options () = Inr (Some (good_result, - 1 / 5, 2 / 10), ())
   \<and> (\<exists>pre post m1 nf.
        temperatures default_options = pre @ (2 / 10) # post \<and>
        all_fail (ladder_model low_result good_result) demo_tokenizer default_options [] []
          (py_round (max_initial_timestamp default_options / time_precision)) pre () = Some m1 \<and>
        decode_attempt (ladder_model low_result good_result) demo_tokenizer default_options [] []
          (py_round (max_initial_timestamp default_options / time_precision)) (2 / 10) m1
          = Inr ((good_result, - 1 / 5, nf), ()) \<and>
        (\<not> nf \<or> post = []))"
  using fallback_returns_first_passing_attempt
          [where w = "ladder_model low_result good_result" and segment = "[]" and prompt = "[]"
             and tok = demo_tokenizer and opts = default_options and m = "()"
             and r = good_result and avg = "- 1 / 5" and t = "2 / 10" and m' = "()"]
        gwf_ladder [of "[]" "[]"]
  by blast

text \<open>
  Claim C7. For the attempt that the fallback decoder returns, the average log probability
  is the score of the result times the length of its first token sequence raised to the
  length penalty, divided by that length plus one.
\<close>

theorem fallback_average_log_probability:
  assumes "generate_with_fallback w segment prompt tok opts m = Inr (Some (r, avg, t), m')"
  shows "\<exists>tokens rest score rest' p.
           sequences_ids r = tokens # rest \<and> scores r = score # rest' \<and>
           py_pow (length tokens) (length_penalty opts) = Inr p \<and>
           p = (if tokens = [] then (if length_penalty opts = 0 then 1 else 0)
                else real (length tokens) powr length_penalty opts) \<and>
           avg = score * p / (real (length tokens) + 1)"
proof -
  from assms obtain m1 nf where
    "decode_attempt w tok opts segment prompt
       (py_round (max_initial_timestamp opts / time_precision)) t m1 = Inr ((r, avg, nf), m')"
    using generate_with_fallback_Some [of w segment prompt tok opts m r avg t m'] by blast
  from decode_attempt_avg [OF this] obtain tokens rest score rest' p where
    h: "sequences_ids r = tokens # rest" "scores r = score # rest'"
       "py_pow (length tokens) (length_penalty opts) = Inr p"
       "avg = score * p / (real (length tokens) + 1)"
    by blast
  from h(3) have "p = (if tokens = [] then (if length_penalty opts = 0 then 1 else 0)
                else real (length tokens) powr length_penalty opts)"
    by (auto simp: py_pow_def split: if_splits)
  with h show ?thesis by blast
qed

theorem fallback_average_log_probability_witness:
  "\<exists>tokens rest score rest' p.
           sequences_ids good_result = tokens # rest \<and> scores good_result = score # rest' \<and>
           py_pow (length tokens) (length_penalty default_options) = Inr p \<and>
           p = (if tokens = [] then (if length_penalty default_options = 0 then 1 else 0)
                else real (length tokens) powr length_penalty default_options) \<and>
           - 1 / 5 = score * p / (real (length tokens) + 1)"
  using fallback_average_log_probability [OF gwf_constant [of "[]" "[]"]]
  by simp

subsection \<open>The no-speech gate\<close>

lemma should_skip_iff:
  "no_speech_threshold opts = Some nst \<Longrightarrow>
   should_skip opts result avg \<longleftrightarrow>
     nst < no_speech_prob result \<and> \<not> (\<exists>l. log_prob_threshold opts = Some l \<and> l < avg)"
  by (auto simp: should_skip_def Let_def split: option.splits)

lemma attempt_silent:
  "decode_attempt (constant_model silent_result) demo_tokenizer default_options fs pr mi t ()
     = Inr ((silent_result, - 8 / 5, True), ())"
  by (simp add: decode_attempt_def constant_model_def silent_result_def demo_tokenizer_def
        default_options_def py_pow_def Let_def)

lemma default_temperatures:
  "temperatures default_options = [0, 2 / 10, 4 / 10, 6 / 10, 8 / 10, 1]"
  by (simp add: default_options_def)

lemma gwf_silent:
  "generate_with_fallback (constant_model silent_result) fs pr demo_tokenizer default_options ()
     = Inr (Some (silent_result, - 8 / 5, 1), ())"
  by (simp add: generate_with_fallback_def round50 Let_def default_temperatures attempt_silent)

text \<open>
  Claim C4. With a no-speech threshold set, and the fallback decoder returning \<open>result\<close>
  and \<open>avg\<close> for the window: the window is skipped exactly when the no-speech probability
  of the result is above the threshold and it is not the case that a log-probability
  threshold is set and \<open>avg\<close> is above it. A skipped window adds \<open>segment_size\<close> to
  \<open>seek\<close>, yields no segment, and leaves \<open>all_tokens\<close> and \<open>prompt_reset_since\<close> as they
  were; a window that is not skipped is processed.
\<close>

theorem no_speech_gate:
  assumes "no_speech_threshold opts = Some nst"
    and "generate_with_fallback w
           (py_slice features (Some (seek st)) (Some (seek st + nb_max_frames w)))
           (window_prompt tok opts st) tok opts (model_state st)
         = Inr (Some (result, avg, temperature), m')"
  shows "(should_skip opts result avg \<longleftrightarrow>
            nst < no_speech_prob result \<and>
            \<not> (\<exists>l. log_prob_threshold opts = Some l \<and> l < avg))
       \<and> window_step w tok opts features st =
           (if nst < no_speech_prob result \<and>
               \<not> (\<exists>l. log_prob_threshold opts = Some l \<and> l < avg)
            then Inr (skip_window (segment_size w features (seek st)) m' st)
            else process_window tok opts (real_of_int (seek st) * time_per_frame w)
                   (segment_size w features (seek st))
                   (real_of_int (segment_size w features (seek st)) * time_per_frame w)
                   result temperature m' st)
       \<and> seek (skip_window k m' st) = seek st + k
       \<and> all_tokens (skip_window k m' st) = all_tokens st
       \<and> prompt_reset_since (skip_window k m' st) = prompt_reset_since st
       \<and> yielded (skip_window k m' st) = yielded st"
  using should_skip_iff [OF assms(1), of result avg] assms(2)
  by (simp add: window_step_def Let_def skip_window_def)

theorem no_speech_gate_witness:
  "window_step (constant_model silent_result) demo_tokenizer default_options (replicate 9000 0)
     (initial_state demo_tokenizer default_options ())
   = Inr (skip_window 3000 () (initial_state demo_tokenizer default_options ()))
   \<and> should_skip default_options silent_result (- 8 / 5)
   \<and> seek (skip_window 3000 () (initial_state demo_tokenizer default_options ())) = 3000
   \<and> \<not> should_skip default_options good_result (- 1 / 5)"
proof -
  let ?st = "initial_state demo_tokenizer default_options ()"
  have h1: "no_speech_threshold default_options = Some (6 / 10)"
    by (simp add: default_options_def)
  have h2: "generate_with_fallback (constant_model silent_result)
              (py_slice (replicate 9000 0) (Some (seek ?st))
                 (Some (seek ?st + nb_max_frames (constant_model silent_result))))
              (window_prompt demo_tokenizer default_options ?st) demo_tokenizer default_options
              (model_state ?st)
            = Inr (Some (silent_result, - 8 / 5, 1), ())"
    using gwf_silent by (simp add: initial_state_def)
  have h3: "generate_with_fallback (constant_model good_result)
              (py_slice (replicate 9000 0) (Some (seek ?st))
                 (Some (seek ?st + nb_max_frames (constant_model good_result))))
              (window_prompt demo_tokenizer default_options ?st) demo_tokenizer default_options
              (model_state ?st)
            = Inr (Some (good_result, - 1 / 5, 0), ())"
    using gwf_constant by (simp add: initial_state_def)
  have l: "log_prob_threshold default_options = Some (- 1)"
    by (simp add: default_options_def)
  have sz: "segment_size (constant_model silent_result) (replicate 9000 0) (seek ?st) = 3000"
    by (simp add: segment_size_def content_frames_def constant_model_def initial_state_def)
  have c2: "(6 / 10 :: real) < no_speech_prob silent_result
            \<and> \<not> (\<exists>l. log_prob_threshold default_options = Some l \<and> l < - 8 / 5)"
    by (simp add: l silent_result_def)
  have c3: "\<not> ((6 / 10 :: real) < no_speech_prob good_result
            \<and> \<not> (\<exists>l. log_prob_threshold default_options = Some l \<and> l < - 1 / 5))"
    by (simp add: l good_result_def)
  have s0: "seek ?st = 0"
    by (simp add: initial_state_def)
  from no_speech_gate [OF h1 h2, of 3000] c2 sz have
    "should_skip default_options silent_result (- 8 / 5)"
    "window_step (constant_model silent_result) demo_tokenizer default_options
       (replicate 9000 0) ?st = Inr (skip_window 3000 () ?st)"
    "seek (skip_window 3000 () ?st) = seek ?st + 3000"
    by simp_all
  moreover from no_speech_gate [OF h1 h3, of 3000] c3 have
    "\<not> should_skip default_options good_result (- 1 / 5)"
    by blast
  ultimately show ?thesis
    using s0 by simp
qed

subsection \<open>Cutting the tokens of a window at the timestamps\<close>

lemma py_get_first: "xs \<noteq> [] \<Longrightarrow> py_get xs 0 = Inr (hd xs)"
  by (simp add: py_get_def hd_conv_nth)

lemma py_get_last: "xs \<noteq> [] \<Longrightarrow> py_get xs (- 1) = Inr (last xs)"
proof -
  assume ne: "xs \<noteq> []"
  then have "nat (int (length xs) - 1) = length xs - 1"
    by simp
  with ne show ?thesis
    by (simp add: py_get_def last_conv_nth)
qed

lemma py_get_nat: "k < length xs \<Longrightarrow> py_get xs (int k) = Inr (xs ! k)"
  by (simp add: py_get_def)

lemma slice_loop_eq:
  assumes "sorted_wrt (<) (l # slices)" and "\<forall>s\<in>set slices. s \<le> length tokens"
  shows "slice_loop tokens tb off l slices acc =
           Inr (acc @ map (chunk_segment tokens tb off) (zip (l # slices) slices),
                last (l # slices))"
  using assms
proof (induction slices arbitrary: l acc)
  case Nil
  then show ?case by simp
next
  case (Cons c slices)
  from Cons.prems have lc: "l < c" and cn: "c \<le> length tokens"
    by simp_all
  have sl: "py_slice tokens (Some (int l)) (Some (int c)) = take (c - l) (drop l tokens)"
    using lc cn by (simp add: slice_between)
  have ne: "take (c - l) (drop l tokens) \<noteq> []"
    using lc cn by simp
  have rest: "sorted_wrt (<) (c # slices)" "\<forall>s\<in>set slices. s \<le> length tokens"
    using Cons.prems by simp_all
  show ?case
    using Cons.IH [OF rest] ne
    by (simp add: sl py_get_first py_get_last chunk_segment_def Let_def)
qed

lemma consecutive_sorted: "sorted_wrt (<) (consecutive_timestamps tb tokens)"
  unfolding consecutive_timestamps_def
  by (rule sorted_wrt_filter) (rule sorted_wrt_upt)

lemma consecutive_range:
  "i \<in> set (consecutive_timestamps tb tokens) \<Longrightarrow>
   0 < i \<and> i < length tokens \<and> tb \<le> tokens ! i \<and> tb \<le> tokens ! (i - 1)"
  by (simp add: consecutive_timestamps_def)

lemma slices_sorted: "sorted_wrt (<) (0 # slices_of tb tokens)"
proof -
  have "\<forall>i\<in>set (consecutive_timestamps tb tokens). 0 < i \<and> i < length tokens"
    using consecutive_range [of _ tb tokens] by blast
  moreover have "single_timestamp_ending tb tokens \<Longrightarrow> 0 < length tokens"
    by (auto simp: single_timestamp_ending_def)
  ultimately show ?thesis
    using consecutive_sorted [of tb tokens]
    by (cases "single_timestamp_ending tb tokens")
       (auto simp: slices_of_def sorted_wrt_append)
qed

lemma slices_range: "s \<in> set (slices_of tb tokens) \<Longrightarrow> s \<le> length tokens"
proof (cases "single_timestamp_ending tb tokens")
  case True
  assume "s \<in> set (slices_of tb tokens)"
  with True have "s \<in> set (consecutive_timestamps tb tokens) \<or> s = length tokens"
    by (auto simp: slices_of_def)
  then show ?thesis
    using consecutive_range [of s tb tokens] by auto
next
  case False
  assume "s \<in> set (slices_of tb tokens)"
  with False have "s \<in> set (consecutive_timestamps tb tokens)"
    by (simp add: slices_of_def)
  then show ?thesis
    using consecutive_range [of s tb tokens] by simp
qed

lemma slice_loop_slices:
  "slice_loop tokens tb off 0 (slices_of tb tokens) [] =
      Inr (map (chunk_segment tokens tb off) (zip (0 # slices_of tb tokens) (slices_of tb tokens)),
           last (0 # slices_of tb tokens))"
proof -
  have "slice_loop tokens tb off 0 (slices_of tb tokens) [] =
      Inr ([] @ map (chunk_segment tokens tb off)
                  (zip (0 # slices_of tb tokens) (slices_of tb tokens)),
           last (0 # slices_of tb tokens))"
  proof (rule slice_loop_eq)
    show "sorted_wrt (<) (0 # slices_of tb tokens)"
      by (rule slices_sorted)
    show "\<forall>s\<in>set (slices_of tb tokens). s \<le> length tokens"
      using slices_range [of _ tb tokens] by blast
  qed
  then show ?thesis
    unfolding append_Nil .
qed

lemma last_boundary_get:
  assumes "consecutive_timestamps tb tokens \<noteq> []"
  shows "py_get tokens (int (last (consecutive_timestamps tb tokens)) - 1)
         = Inr (tokens ! (last (consecutive_timestamps tb tokens) - 1))"
    and "tb \<le> tokens ! (last (consecutive_timestamps tb tokens) - 1)"
proof -
  let ?cts = "consecutive_timestamps tb tokens"
  have lastin: "last ?cts \<in> set ?cts"
    using assms by simp
  from consecutive_range [OF lastin] have
    pos: "0 < last ?cts" and lt: "last ?cts < length tokens"
    and ge: "tb \<le> tokens ! (last ?cts - 1)"
    by simp_all
  have e: "int (last ?cts) - 1 = int (last ?cts - 1)"
    using pos by linarith
  have l: "last ?cts - 1 < length tokens"
    using lt by arith
  show "py_get tokens (int (last ?cts) - 1) = Inr (tokens ! (last ?cts - 1))"
    unfolding e by (rule py_get_nat [OF l])
  show "tb \<le> tokens ! (last ?cts - 1)"
    by (rule ge)
qed

lemma split_consecutive:
  assumes "consecutive_timestamps tb tokens \<noteq> []"
  shows "split_by_timestamps tb off k dur tokens =
           Inr (map (chunk_segment tokens tb off)
                  (zip (0 # slices_of tb tokens) (slices_of tb tokens)),
                if single_timestamp_ending tb tokens then k
                else (tokens ! (last (consecutive_timestamps tb tokens) - 1) - tb)
                     * input_stride)"
proof (cases "single_timestamp_ending tb tokens")
  case True
  then have sl: "consecutive_timestamps tb tokens @ [length tokens] = slices_of tb tokens"
    by (simp add: slices_of_def)
  from assms True show ?thesis
    by (simp add: split_by_timestamps_def Let_def sl slice_loop_slices)
next
  case False
  then have sl: "slices_of tb tokens = consecutive_timestamps tb tokens"
    by (simp add: slices_of_def)
  have lst: "last (0 # consecutive_timestamps tb tokens) = last (consecutive_timestamps tb tokens)"
    using assms by simp
  have loop: "slice_loop tokens tb off 0 (consecutive_timestamps tb tokens) [] =
      Inr (map (chunk_segment tokens tb off)
             (zip (0 # slices_of tb tokens) (slices_of tb tokens)),
           last (consecutive_timestamps tb tokens))"
    using slice_loop_slices [of tokens tb off] unfolding sl lst .
  from assms False show ?thesis
    by (simp add: split_by_timestamps_def Let_def loop last_boundary_get(1))
qed

lemma split_single:
  assumes "consecutive_timestamps tb tokens = []"
  shows "split_by_timestamps tb off k dur tokens =
           Inr ([\<lparr>rs_start = off,
                  rs_end = off + (if filter (\<lambda>t. tb \<le> t) tokens \<noteq> [] \<and>
                                     last (filter (\<lambda>t. tb \<le> t) tokens) \<noteq> tb
                                  then real_of_int (last (filter (\<lambda>t. tb \<le> t) tokens) - tb)
                                       * time_precision
                                  else dur),
                  rs_tokens = tokens\<rparr>], k)"
  using assms by (simp add: split_by_timestamps_def Let_def)

subsection \<open>The segments of a window\<close>

lemma emit_segments_eq:
  "emit_segments tok segs (toks, out) =
     (toks @ concat (map rs_tokens segs),
      out @ map (\<lambda>s. \<lparr>seg_start = rs_start s, seg_end = rs_end s,
                      seg_text = decode tok (rs_tokens s)\<rparr>)
              (filter (\<lambda>s. strip (decode tok (rs_tokens s)) \<noteq> []) segs))"
  by (induction segs arbitrary: toks out) (simp_all add: Let_def)

lemma process_window_eq:
  assumes "sequences_ids result = tokens # rest"
    and "split_by_timestamps (timestamp_begin tok) off k dur tokens = Inr (segs, advance)"
  shows "process_window tok opts off k dur result temperature m' st =
           Inr \<lparr>seek = seek st + advance,
                all_tokens = all_tokens st @ concat (map rs_tokens segs),
                prompt_reset_since =
                  (if \<not> condition_on_previous_text opts \<or> 1 / 2 < temperature
                   then length (all_tokens st) else prompt_reset_since st),
                yielded = yielded st @
                  map (\<lambda>s. \<lparr>seg_start = rs_start s, seg_end = rs_end s,
                             seg_text = decode tok (rs_tokens s)\<rparr>)
                    (filter (\<lambda>s. strip (decode tok (rs_tokens s)) \<noteq> []) segs),
                model_state = m'\<rparr>"
  using assms by (simp add: process_window_def Let_def emit_segments_eq)

lemma chunks_concat:
  assumes "sorted_wrt (<) (l # slices)" and "\<forall>s\<in>set slices. s \<le> length tokens"
  shows "concat (map (\<lambda>ab. take (snd ab - fst ab) (drop (fst ab) tokens)) (zip (l # slices) slices))
         = take (last (l # slices) - l) (drop l tokens)"
  using assms
proof (induction slices arbitrary: l)
  case Nil
  then show ?case by simp
next
  case (Cons c slices)
  from Cons.prems have lc: "l < c"
    by simp
  have rest: "sorted_wrt (<) (c # slices)" "\<forall>s\<in>set slices. s \<le> length tokens"
    using Cons.prems by simp_all
  have cl: "c \<le> last (c # slices)"
    using rest(1) by (cases slices) (auto simp: less_imp_le)
  have "take (c - l) (drop l tokens) @ take (last (c # slices) - c) (drop c tokens)
        = take (last (c # slices) - l) (drop l tokens)"
  proof -
    have "drop c tokens = drop (c - l) (drop l tokens)"
      using lc by simp
    moreover have "last (c # slices) - l = (c - l) + (last (c # slices) - c)"
      using lc cl by arith
    ultimately show ?thesis
      by (simp only: take_add)
  qed
  with Cons.IH [OF rest] show ?case
    by simp
qed

lemma example_cuts:
  "consecutive_timestamps 50364 [50414, 104, 105, 50464, 50464, 106, 107, 50514] = [4]"
  "single_timestamp_ending 50364 [50414, 104, 105, 50464, 50464, 106, 107, 50514]"
  by (simp_all add: consecutive_timestamps_def single_timestamp_ending_def upt_rec)

text \<open>
  Claim C6. When the tokens of a window have at least one position \<open>i > 0\<close> at which
  \<open>tokens[i]\<close> and \<open>tokens[i-1]\<close> are both timestamps, the tokens are cut at every such
  position, and also at the end when the sequence ends in a single timestamp after a token
  that is not one. The chunks between the cuts are consecutive, start at the first token and
  are not empty; one raw segment is made per chunk, with the chunk as its tokens, and its
  start and end are the offsets of the chunk's first and last token from \<open>timestamp_begin\<close>,
  times \<open>time_precision\<close>, plus \<open>time_offset\<close>.
\<close>

theorem consecutive_timestamps_chunks:
  assumes "consecutive_timestamps tb tokens \<noteq> []"
  shows "\<exists>segs advance.
           split_by_timestamps tb off k dur tokens = Inr (segs, advance)
           \<and> segs = map (chunk_segment tokens tb off)
                      (zip (0 # slices_of tb tokens) (slices_of tb tokens))
           \<and> length segs = length (slices_of tb tokens)
           \<and> (\<forall>ab \<in> set (zip (0 # slices_of tb tokens) (slices_of tb tokens)).
                 fst ab < snd ab \<and> snd ab \<le> length tokens)
           \<and> concat (map rs_tokens segs) = take (last (slices_of tb tokens)) tokens"
proof -
  let ?sl = "slices_of tb tokens"
  let ?segs = "map (chunk_segment tokens tb off) (zip (0 # ?sl) ?sl)"
  have srt: "sorted_wrt (<) (0 # ?sl)"
    by (rule slices_sorted)
  have rng: "\<forall>s\<in>set ?sl. s \<le> length tokens"
    using slices_range [of _ tb tokens] by blast
  have ne: "?sl \<noteq> []"
    using assms by (simp add: slices_of_def)
  have pairs: "\<forall>ab \<in> set (zip (0 # ?sl) ?sl). fst ab < snd ab \<and> snd ab \<le> length tokens"
  proof
    fix ab assume ab: "ab \<in> set (zip (0 # ?sl) ?sl)"
    then obtain i where i: "i < length ?sl" "ab = ((0 # ?sl) ! i, ?sl ! i)"
      by (auto simp: set_zip)
    have "(0 # ?sl) ! i < (0 # ?sl) ! Suc i"
      using sorted_wrt_nth_less [OF srt, of i "Suc i"] i(1) by simp
    moreover have "?sl ! i \<in> set ?sl"
      using i(1) by simp
    ultimately show "fst ab < snd ab \<and> snd ab \<le> length tokens"
      using i(2) rng by simp
  qed
  have "concat (map rs_tokens ?segs)
        = concat (map (\<lambda>ab. take (snd ab - fst ab) (drop (fst ab) tokens)) (zip (0 # ?sl) ?sl))"
    by (simp add: chunk_segment_def Let_def comp_def)
  also have "\<dots> = take (last (0 # ?sl) - 0) (drop 0 tokens)"
    by (rule chunks_concat [OF srt rng])
  also have "\<dots> = take (last ?sl) tokens"
    using ne by simp
  finally have cc: "concat (map rs_tokens ?segs) = take (last ?sl) tokens" .
  have len: "length ?segs = length ?sl"
    by simp
  from split_consecutive [OF assms, of off k dur] pairs cc len show ?thesis
    by blast
qed

theorem consecutive_timestamps_chunks_witness:
  "split_by_timestamps 50364 0 3000 30 [50414, 104, 105, 50464, 50464, 106, 107, 50514]
   = Inr ([\<lparr>rs_start = 1, rs_end = 2, rs_tokens = [50414, 104, 105, 50464]\<rparr>,
           \<lparr>rs_start = 2, rs_end = 3, rs_tokens = [50464, 106, 107, 50514]\<rparr>], 3000)"
proof -
  have ne: "consecutive_timestamps 50364 [50414, 104, 105, 50464, 50464, 106, 107, 50514] \<noteq> []"
    by (simp add: example_cuts)
  have sl: "slices_of 50364 [50414, 104, 105, 50464, 50464, 106, 107, 50514] = [4, 8]"
    by (simp add: slices_of_def example_cuts)
  from consecutive_timestamps_chunks [OF ne, of 0 3000 30] obtain segs advance where
    h: "split_by_timestamps 50364 0 3000 30 [50414, 104, 105, 50464, 50464, 106, 107, 50514]
        = Inr (segs, advance)"
       "segs = map (chunk_segment [50414, 104, 105, 50464, 50464, 106, 107, 50514] 50364 0)
                 (zip (0 # slices_of 50364 [50414, 104, 105, 50464, 50464, 106, 107, 50514])
                    (slices_of 50364 [50414, 104, 105, 50464, 50464, 106, 107, 50514]))"
    by blast
  have "segs = [\<lparr>rs_start = 1, rs_end = 2, rs_tokens = [50414, 104, 105, 50464]\<rparr>,
                \<lparr>rs_start = 2, rs_end = 3, rs_tokens = [50464, 106, 107, 50514]\<rparr>]"
    unfolding h(2) sl by (simp add: chunk_segment_def time_precision_def)
  moreover have "advance = 3000"
    using h(1) split_consecutive [OF ne, of 0 3000 30] by (simp add: example_cuts)
  ultimately show ?thesis
    using h(1) by simp
qed

lemma example_no_cuts: "consecutive_timestamps 50364 [50364, 104, 105, 50414] = []"
  by (simp add: consecutive_timestamps_def upt_rec)

text \<open>
  Claim C3, as stated, takes the duration from a timestamp whenever the output holds a
  timestamp token that is not \<open>timestamp_begin\<close>. The code looks at the last timestamp
  token only: for the tokens \<open>1.0s, text, 0.0s\<close> there is such a token, and the segment
  still lasts the whole \<open>segment_duration\<close>.
\<close>

theorem single_segment_duration_counterexample:
  "consecutive_timestamps 50364 [50414, 104, 50364] = []
   \<and> 50414 \<in> set [50414, 104, 50364 :: int] \<and> (50364 :: int) \<le> 50414 \<and> (50414 :: int) \<noteq> 50364
   \<and> split_by_timestamps 50364 0 3000 30 [50414, 104, 50364]
       = Inr ([\<lparr>rs_start = 0, rs_end = 30, rs_tokens = [50414, 104, 50364]\<rparr>], 3000)
   \<and> (0 :: real) + real_of_int (50414 - 50364) * time_precision \<noteq> 30"
  by (simp add: consecutive_timestamps_def split_by_timestamps_def single_timestamp_ending_def
        time_precision_def upt_rec Let_def)

text \<open>
  Claim C3, amended. When the tokens of a window have no consecutive timestamp pair, exactly
  one raw segment is made, with all the tokens, from \<open>time_offset\<close> to \<open>time_offset\<close> plus
  the duration: the duration is \<open>segment_duration\<close>, unless the output has a timestamp token
  and the last one is not \<open>timestamp_begin\<close>, in which case it is the offset of that last
  timestamp from \<open>timestamp_begin\<close> times \<open>time_precision\<close>. The window adds
  \<open>segment_size\<close> to \<open>seek\<close>, whatever the tokens are.
\<close>

theorem single_segment_window:
  assumes "consecutive_timestamps (timestamp_begin tok) tokens = []"
    and "sequences_ids result = tokens # rest"
  shows "split_by_timestamps (timestamp_begin tok) off k dur tokens =
           Inr ([\<lparr>rs_start = off,
                  rs_end = off +
                    (if filter (\<lambda>t. timestamp_begin tok \<le> t) tokens \<noteq> [] \<and>
                        last (filter (\<lambda>t. timestamp_begin tok \<le> t) tokens) \<noteq> timestamp_begin tok
                     then real_of_int (last (filter (\<lambda>t. timestamp_begin tok \<le> t) tokens)
                                       - timestamp_begin tok) * time_precision
                     else dur),
                  rs_tokens = tokens\<rparr>], k)
       \<and> (\<exists>st'. process_window tok opts off k dur result temperature m' st = Inr st'
                 \<and> seek st' = seek st + k)"
  using split_single [OF assms(1), of off k dur]
    process_window_eq [OF assms(2) split_single [OF assms(1), of off k dur],
      of opts temperature m' st]
  by simp

theorem single_segment_window_witness:
  "split_by_timestamps 50364 0 3000 30 [50364, 104, 105, 50414]
     = Inr ([\<lparr>rs_start = 0, rs_end = 1, rs_tokens = [50364, 104, 105, 50414]\<rparr>], 3000)
   \<and> (\<exists>st'. process_window demo_tokenizer default_options 0 3000 30 good_result 0 ()
               (initial_state demo_tokenizer default_options ()) = Inr st'
             \<and> seek st' = 3000)"
proof -
  have tb: "timestamp_begin demo_tokenizer = 50364"
    by (simp add: demo_tokenizer_def)
  have a: "consecutive_timestamps (timestamp_begin demo_tokenizer) [50364, 104, 105, 50414] = []"
    unfolding tb by (rule example_no_cuts)
  have b: "sequences_ids good_result = [50364, 104, 105, 50414] # []"
    by (simp add: good_result_def)
  have s0: "seek (initial_state demo_tokenizer default_options ()) = 0"
    by (simp add: initial_state_def)
  from single_segment_window [OF a b, of 0 3000 30 default_options 0 "()"
         "initial_state demo_tokenizer default_options ()"]
  show ?thesis
    unfolding tb s0 by (simp add: time_precision_def)
qed

subsection \<open>One pass of the window loop\<close>

lemma window_step_processed:
  assumes "generate_with_fallback w
             (py_slice features (Some (seek st)) (Some (seek st + nb_max_frames w)))
             (window_prompt tok opts st) tok opts (model_state st)
           = Inr (Some (result, avg, temperature), m')"
    and "\<not> should_skip opts result avg"
    and "sequences_ids result = tokens # rest"
    and "split_by_timestamps (timestamp_begin tok) (real_of_int (seek st) * time_per_frame w)
           (segment_size w features (seek st))
           (real_of_int (segment_size w features (seek st)) * time_per_frame w) tokens
         = Inr (segs, advance)"
  shows "window_step w tok opts features st =
           Inr \<lparr>seek = seek st + advance,
                all_tokens = all_tokens st @ concat (map rs_tokens segs),
                prompt_reset_since =
                  (if \<not> condition_on_previous_text opts \<or> 1 / 2 < temperature
                   then length (all_tokens st) else prompt_reset_since st),
                yielded = yielded st @
                  map (\<lambda>s. \<lparr>seg_start = rs_start s, seg_end = rs_end s,
                             seg_text = decode tok (rs_tokens s)\<rparr>)
                    (filter (\<lambda>s. strip (decode tok (rs_tokens s)) \<noteq> []) segs),
                model_state = m'\<rparr>"
  using assms(1,2) process_window_eq [OF assms(3,4), of opts temperature m' st]
  by (simp add: window_step_def Let_def)

text \<open>
  The reset of \<open>prompt_reset_since\<close> is made before the tokens of the window are appended:
  after a window that resets, the context of the next window is exactly the tokens of the
  window that has just been processed.
\<close>

lemma reset_context_is_window_output:
  assumes "generate_with_fallback w
             (py_slice features (Some (seek st)) (Some (seek st + nb_max_frames w)))
             (window_prompt tok opts st) tok opts (model_state st)
           = Inr (Some (result, avg, temperature), m')"
    and "\<not> should_skip opts result avg"
    and "sequences_ids result = tokens # rest"
    and "split_by_timestamps (timestamp_begin tok) (real_of_int (seek st) * time_per_frame w)
           (segment_size w features (seek st))
           (real_of_int (segment_size w features (seek st)) * time_per_frame w) tokens
         = Inr (segs, advance)"
    and "\<not> condition_on_previous_text opts \<or> 1 / 2 < temperature"
  shows "\<exists>st'. window_step w tok opts features st = Inr st'
               \<and> previous_tokens st' = concat (map rs_tokens segs)"
  using assms(5) slice_from [of "all_tokens st @ concat (map rs_tokens segs)" "length (all_tokens st)"]
  by (simp only: window_step_processed [OF assms(1-4)]) (simp add: previous_tokens_def)

lemma attempt_no_context:
  "decode_attempt (constant_model good_result) demo_tokenizer no_context_options fs pr mi 0 ()
     = Inr ((good_result, - 1 / 5, False), ())"
  by (simp add: decode_attempt_def constant_model_def good_result_def demo_tokenizer_def
        default_options_def no_context_options_def py_pow_def Let_def)

lemma gwf_no_context:
  "generate_with_fallback (constant_model good_result) fs pr demo_tokenizer no_context_options ()
     = Inr (Some (good_result, - 1 / 5, 0), ())"
proof -
  have r: "py_round (max_initial_timestamp no_context_options / time_precision) = 50"
    by (simp add: py_round_def default_options_def no_context_options_def time_precision_def
          Let_def)
  have t: "temperatures no_context_options = [0, 2 / 10, 4 / 10, 6 / 10, 8 / 10, 1]"
    by (simp add: default_options_def no_context_options_def)
  show ?thesis
    by (simp add: generate_with_fallback_def r t Let_def attempt_no_context)
qed

text \<open>
  Claim C2 says that after a window decoded with \<^verbatim>\<open>condition_on_previous_text=False\<close> (or
  at a temperature above 0.5) the tokens of that window are not part of the context of the
  next prompt. The code does the opposite. With the option off, the initial prompt
  \<^verbatim>\<open>"hi"\<close> and a decoder that answers \<open>0.0s h i 1.0s\<close>: after the first window
  \<open>prompt_reset_since\<close> is 3, the length of \<open>all_tokens\<close> before the window, so that the
  context of the second window is the four tokens of the first window, and they stand in
  its prompt after the previous-text marker.
\<close>

theorem prompt_reset_keeps_window_tokens:
  "window_step (constant_model good_result) demo_tokenizer no_context_options
     (replicate 9000 0) (initial_state demo_tokenizer no_context_options ())
   = Inr \<lparr>seek = 3000, all_tokens = [32, 104, 105, 50364, 104, 105, 50414],
          prompt_reset_since = 3,
          yielded = [\<lparr>seg_start = 0, seg_end = 1, seg_text = [104, 105]\<rparr>],
          model_state = ()\<rparr>
   \<and> \<not> condition_on_previous_text no_context_options
   \<and> previous_tokens
       \<lparr>seek = 3000, all_tokens = [32, 104, 105, 50364, 104, 105, 50414],
        prompt_reset_since = 3,
        yielded = [\<lparr>seg_start = 0, seg_end = 1, seg_text = [104, 105]\<rparr>],
        model_state = ()\<rparr> = [50364, 104, 105, 50414]
   \<and> window_prompt demo_tokenizer no_context_options
       \<lparr>seek = 3000, all_tokens = [32, 104, 105, 50364, 104, 105, 50414],
        prompt_reset_since = 3,
        yielded = [\<lparr>seg_start = 0, seg_end = 1, seg_text = [104, 105]\<rparr>],
        model_state = ()\<rparr> = [50361, 50364, 104, 105, 50414, 50258, 50259, 50359]"
proof -
  let ?st = "initial_state demo_tokenizer no_context_options ()"
  let ?w = "constant_model good_result"
  have st: "?st = \<lparr>seek = 0, all_tokens = [32, 104, 105], prompt_reset_since = 0,
                    yielded = [], model_state = ()\<rparr>"
    by (simp add: initial_state_def no_context_options_def default_options_def
          demo_tokenizer_def strip_def isspace_def)
  have tb: "timestamp_begin demo_tokenizer = 50364"
    by (simp add: demo_tokenizer_def)
  have sz: "segment_size ?w (replicate 9000 0) (seek ?st) = 3000"
    by (simp add: segment_size_def content_frames_def constant_model_def st)
  have tpf: "time_per_frame ?w = 1 / 100"
    by (simp add: constant_model_def)
  have h1: "generate_with_fallback ?w
             (py_slice (replicate 9000 0) (Some (seek ?st)) (Some (seek ?st + nb_max_frames ?w)))
             (window_prompt demo_tokenizer no_context_options ?st) demo_tokenizer
             no_context_options (model_state ?st)
           = Inr (Some (good_result, - 1 / 5, 0), ())"
    using gwf_no_context by (simp add: st)
  have h2: "\<not> should_skip no_context_options good_result (- 1 / 5)"
    by (simp add: should_skip_def no_context_options_def default_options_def good_result_def
          Let_def)
  have h3: "sequences_ids good_result = [50364, 104, 105, 50414] # []"
    by (simp add: good_result_def)
  have h4: "split_by_timestamps (timestamp_begin demo_tokenizer)
              (real_of_int (seek ?st) * time_per_frame ?w)
              (segment_size ?w (replicate 9000 0) (seek ?st))
              (real_of_int (segment_size ?w (replicate 9000 0) (seek ?st)) * time_per_frame ?w)
              [50364, 104, 105, 50414]
            = Inr ([\<lparr>rs_start = 0, rs_end = 1, rs_tokens = [50364, 104, 105, 50414]\<rparr>], 3000)"
    unfolding tb sz tpf
    using split_single [OF example_no_cuts, of "real_of_int (seek ?st) * (1 / 100)" 3000
             "real_of_int 3000 * (1 / 100)"]
    by (simp add: st time_precision_def)
  have c: "\<not> condition_on_previous_text no_context_options"
    by (simp add: no_context_options_def)
  have step: "window_step ?w demo_tokenizer no_context_options (replicate 9000 0) ?st
        = Inr \<lparr>seek = 3000, all_tokens = [32, 104, 105, 50364, 104, 105, 50414],
               prompt_reset_since = 3,
               yielded = [\<lparr>seg_start = 0, seg_end = 1, seg_text = [104, 105]\<rparr>],
               model_state = ()\<rparr>"
    apply (simp only: window_step_processed [OF h1 h2 h3 h4])
    apply (simp only: st)
    apply (simp add: c demo_tokenizer_def strip_def isspace_def)
    done
  have prev: "previous_tokens
       \<lparr>seek = 3000, all_tokens = [32, 104, 105, 50364, 104, 105, 50414],
        prompt_reset_since = 3,
        yielded = [\<lparr>seg_start = 0, seg_end = 1, seg_text = [104, 105]\<rparr>],
        model_state = ()\<rparr> = [50364, 104, 105, 50414]"
    using slice_from [of "[32, 104, 105, 50364, 104, 105, 50414 :: int]" 3]
    by (simp add: previous_tokens_def)
  have pr: "get_prompt demo_tokenizer [50364, 104, 105, 50414] False None
            = [50361, 50364, 104, 105, 50414, 50258, 50259, 50359]"
    using slice_last_n [of 223 "[50364, 104, 105, 50414 :: int]"]
    by (simp add: get_prompt_def demo_tokenizer_def max_length_def)
  have wp: "window_prompt demo_tokenizer no_context_options
       \<lparr>seek = 3000, all_tokens = [32, 104, 105, 50364, 104, 105, 50414],
        prompt_reset_since = 3,
        yielded = [\<lparr>seg_start = 0, seg_end = 1, seg_text = [104, 105]\<rparr>],
        model_state = ()\<rparr> = [50361, 50364, 104, 105, 50414, 50258, 50259, 50359]"
    unfolding window_prompt_def prev
    using pr by (simp add: no_context_options_def default_options_def)
  from step c prev wp show ?thesis
    by blast
qed

subsection \<open>The advance of seek\<close>

lemma decode_attempt_generate:
  assumes "decode_attempt w tok opts features prompt mi t m = Inr ((r, avg, nf), m')"
  shows "\<exists>call rs tokens rest. generate w m call = Inr (r # rs, m') \<and>
           sequences_ids r = tokens # rest"
  using assms
  by (auto simp: decode_attempt_def Let_def
           split: sum.splits list.splits option.splits prod.splits if_splits)

lemma generate_with_fallback_generate:
  assumes "generate_with_fallback w segment prompt tok opts m = Inr (Some (r, avg, t), m')"
  shows "\<exists>m1 call rs tokens rest. generate w m1 call = Inr (r # rs, m') \<and>
           sequences_ids r = tokens # rest"
proof -
  from assms obtain m1 nf where
    "decode_attempt w tok opts segment prompt
       (py_round (max_initial_timestamp opts / time_precision)) t m1 = Inr ((r, avg, nf), m')"
    using generate_with_fallback_Some [of w segment prompt tok opts m r avg t m'] by blast
  from decode_attempt_generate [OF this] show ?thesis
    by blast
qed

lemma split_total:
  "\<exists>segs. split_by_timestamps tb off k dur tokens =
     Inr (segs, if consecutive_timestamps tb tokens = [] \<or> single_timestamp_ending tb tokens
                then k
                else (tokens ! (last (consecutive_timestamps tb tokens) - 1) - tb) * input_stride)"
proof (cases "consecutive_timestamps tb tokens = []")
  case True
  with split_single [OF True, of off k dur] show ?thesis
    by simp
next
  case False
  with split_consecutive [OF False, of off k dur] show ?thesis
    by simp
qed

lemma advance_sign:
  assumes "0 < k"
  shows "0 \<le> (if consecutive_timestamps tb tokens = [] \<or> single_timestamp_ending tb tokens
                then k
                else (tokens ! (last (consecutive_timestamps tb tokens) - 1) - tb) * input_stride)"
    and "(if consecutive_timestamps tb tokens = [] \<or> single_timestamp_ending tb tokens
                then k
                else (tokens ! (last (consecutive_timestamps tb tokens) - 1) - tb) * input_stride)
          = 0 \<longleftrightarrow> stalls tb tokens"
proof -
  have ge: "consecutive_timestamps tb tokens \<noteq> [] \<Longrightarrow>
            tb \<le> tokens ! (last (consecutive_timestamps tb tokens) - 1)"
    by (rule last_boundary_get(2))
  show "0 \<le> (if consecutive_timestamps tb tokens = [] \<or> single_timestamp_ending tb tokens
                then k
                else (tokens ! (last (consecutive_timestamps tb tokens) - 1) - tb) * input_stride)"
    using assms ge by (auto simp: input_stride_def)
  show "(if consecutive_timestamps tb tokens = [] \<or> single_timestamp_ending tb tokens
                then k
                else (tokens ! (last (consecutive_timestamps tb tokens) - 1) - tb) * input_stride)
          = 0 \<longleftrightarrow> stalls tb tokens"
    using assms by (auto simp: input_stride_def stalls_def)
qed

lemma window_step_seek:
  assumes "window_step w tok opts features st = Inr st'"
  shows "\<exists>result avg temperature m' tokens rest.
           generate_with_fallback w
             (py_slice features (Some (seek st)) (Some (seek st + nb_max_frames w)))
             (window_prompt tok opts st) tok opts (model_state st)
           = Inr (Some (result, avg, temperature), m')
           \<and> sequences_ids result = tokens # rest
           \<and> seek st' = seek st +
               (if should_skip opts result avg then segment_size w features (seek st)
                else if consecutive_timestamps (timestamp_begin tok) tokens = [] \<or>
                        single_timestamp_ending (timestamp_begin tok) tokens
                     then segment_size w features (seek st)
                     else (tokens ! (last (consecutive_timestamps (timestamp_begin tok) tokens) - 1)
                           - timestamp_begin tok) * input_stride)"
proof -
  let ?g = "generate_with_fallback w
             (py_slice features (Some (seek st)) (Some (seek st + nb_max_frames w)))
             (window_prompt tok opts st) tok opts (model_state st)"
  from assms obtain result avg temperature m' where
    g: "?g = Inr (Some (result, avg, temperature), m')"
    by (auto simp: window_step_def Let_def split: sum.splits option.splits prod.splits)
  from generate_with_fallback_generate [OF g] obtain tokens rest where
    t: "sequences_ids result = tokens # rest"
    by blast
  let ?k = "segment_size w features (seek st)"
  show ?thesis
  proof (cases "should_skip opts result avg")
    case True
    with assms g have "st' = skip_window ?k m' st"
      by (simp add: window_step_def Let_def)
    then have "seek st' = seek st + ?k"
      by (simp add: skip_window_def)
    with g t True show ?thesis
      by auto
  next
    case False
    from split_total [of "timestamp_begin tok" "real_of_int (seek st) * time_per_frame w" ?k
           "real_of_int ?k * time_per_frame w" tokens]
    obtain segs where
      s: "split_by_timestamps (timestamp_begin tok) (real_of_int (seek st) * time_per_frame w) ?k
            (real_of_int ?k * time_per_frame w) tokens
          = Inr (segs, if consecutive_timestamps (timestamp_begin tok) tokens = [] \<or>
                        single_timestamp_ending (timestamp_begin tok) tokens
                     then ?k
                     else (tokens ! (last (consecutive_timestamps (timestamp_begin tok) tokens) - 1)
                           - timestamp_begin tok) * input_stride)"
      by blast
    from window_step_processed [OF g False t s] assms have
      "seek st' = seek st +
         (if consecutive_timestamps (timestamp_begin tok) tokens = [] \<or>
                        single_timestamp_ending (timestamp_begin tok) tokens
                     then ?k
                     else (tokens ! (last (consecutive_timestamps (timestamp_begin tok) tokens) - 1)
                           - timestamp_begin tok) * input_stride)"
      by auto
    with g t False show ?thesis
      by auto
  qed
qed

lemma segment_size_pos:
  "0 < nb_max_frames w \<Longrightarrow> sk < content_frames w features \<Longrightarrow>
   0 < segment_size w features sk"
  by (simp add: segment_size_def)

lemma window_step_progress:
  assumes "0 < nb_max_frames w" and "seek st < content_frames w features"
    and "window_step w tok opts features st = Inr st'"
  shows "\<exists>result avg temperature m' tokens rest.
           generate_with_fallback w
             (py_slice features (Some (seek st)) (Some (seek st + nb_max_frames w)))
             (window_prompt tok opts st) tok opts (model_state st)
           = Inr (Some (result, avg, temperature), m')
           \<and> sequences_ids result = tokens # rest
           \<and> seek st \<le> seek st'
           \<and> (seek st' = seek st \<longleftrightarrow>
                \<not> should_skip opts result avg \<and> stalls (timestamp_begin tok) tokens)"
proof -
  let ?k = "segment_size w features (seek st)"
  have k: "0 < ?k"
    using assms(1,2) by (rule segment_size_pos)
  from window_step_seek [OF assms(3)] obtain result avg temperature m' tokens rest where
    g: "generate_with_fallback w
             (py_slice features (Some (seek st)) (Some (seek st + nb_max_frames w)))
             (window_prompt tok opts st) tok opts (model_state st)
           = Inr (Some (result, avg, temperature), m')"
    and t: "sequences_ids result = tokens # rest"
    and s: "seek st' = seek st +
               (if should_skip opts result avg then ?k
                else if consecutive_timestamps (timestamp_begin tok) tokens = [] \<or>
                        single_timestamp_ending (timestamp_begin tok) tokens
                     then ?k
                     else (tokens ! (last (consecutive_timestamps (timestamp_begin tok) tokens) - 1)
                           - timestamp_begin tok) * input_stride)"
    by blast
  have "seek st \<le> seek st' \<and>
        (seek st' = seek st \<longleftrightarrow>
           \<not> should_skip opts result avg \<and> stalls (timestamp_begin tok) tokens)"
  proof (cases "should_skip opts result avg")
    case True
    with s k show ?thesis by simp
  next
    case False
    with s advance_sign [OF k, of "timestamp_begin tok" tokens] show ?thesis
      by (simp del: One_nat_def)
  qed
  with g t show ?thesis
    by blast
qed

lemma never_stalls_progress:
  assumes "never_stalls w (timestamp_begin tok)"
    and "0 < nb_max_frames w" and "seek st < content_frames w features"
    and "window_step w tok opts features st = Inr st'"
  shows "seek st < seek st'"
proof -
  from window_step_progress [OF assms(2,3,4)]
  obtain result avg temperature m' tokens rest where
    g: "generate_with_fallback w
             (py_slice features (Some (seek st)) (Some (seek st + nb_max_frames w)))
             (window_prompt tok opts st) tok opts (model_state st)
           = Inr (Some (result, avg, temperature), m')"
    and t: "sequences_ids result = tokens # rest"
    and le: "seek st \<le> seek st'"
    and eq: "seek st' = seek st \<longleftrightarrow>
                \<not> should_skip opts result avg \<and> stalls (timestamp_begin tok) tokens"
    by blast
  from generate_with_fallback_generate [OF g] obtain m1 call rs where
    "generate w m1 call = Inr (result # rs, m')"
    by blast
  with assms(1) t have "\<not> stalls (timestamp_begin tok) tokens"
    unfolding never_stalls_def by blast
  with eq le show ?thesis
    by linarith
qed

lemma segments_loop_returns:
  assumes "never_stalls w (timestamp_begin tok)" and "0 < nb_max_frames w"
  shows "\<exists>r. segments_loop w tok opts features st = Some r"
proof (induction "nat (content_frames w features - seek st)" arbitrary: st rule: less_induct)
  case less
  show ?case
  proof (cases "seek st < content_frames w features")
    case False
    then show ?thesis
      by (subst segments_loop.simps) simp
  next
    case True
    show ?thesis
    proof (cases "window_step w tok opts features st")
      case (Inl e)
      with True show ?thesis
        by (subst segments_loop.simps) simp
    next
      case (Inr st')
      from never_stalls_progress [OF assms True Inr] True have
        "nat (content_frames w features - seek st') < nat (content_frames w features - seek st)"
        by linarith
      from less [OF this] obtain r where "segments_loop w tok opts features st' = Some r"
        by blast
      with True Inr show ?thesis
        by (subst segments_loop.simps) simp
    qed
  qed
qed

text \<open>A decoder that answers \<open>0.0s 0.0s\<close> keeps the loop at the same window for ever.\<close>

lemma stall_cuts:
  "consecutive_timestamps 50364 [50364, 50364] = [1]"
  "\<not> single_timestamp_ending 50364 [50364, 50364]"
  by (simp_all add: consecutive_timestamps_def single_timestamp_ending_def upt_rec)

lemma attempt_stall:
  "decode_attempt (constant_model stall_result) demo_tokenizer default_options fs pr mi 0 ()
     = Inr ((stall_result, - 1 / 6, False), ())"
  by (simp add: decode_attempt_def constant_model_def stall_result_def demo_tokenizer_def
        default_options_def py_pow_def Let_def)

lemma gwf_stall:
  "generate_with_fallback (constant_model stall_result) fs pr demo_tokenizer default_options m
     = Inr (Some (stall_result, - 1 / 6, 0), ())"
  by (simp add: generate_with_fallback_def round50 Let_def default_temperatures attempt_stall)

lemma not_skip_stall: "\<not> should_skip default_options stall_result (- 1 / 6)"
  by (simp add: should_skip_def default_options_def stall_result_def Let_def)

lemma window_step_stall:
  "\<exists>st'. window_step (constant_model stall_result) demo_tokenizer default_options features st
           = Inr st' \<and> seek st' = seek st"
proof -
  let ?w = "constant_model stall_result"
  let ?k = "segment_size ?w features (seek st)"
  have tb: "timestamp_begin demo_tokenizer = 50364"
    by (simp add: demo_tokenizer_def)
  have t: "sequences_ids stall_result = [50364, 50364] # []"
    by (simp add: stall_result_def)
  have ne: "consecutive_timestamps 50364 [50364, 50364] \<noteq> []"
    by (simp add: stall_cuts)
  from split_consecutive [OF ne, of "real_of_int (seek st) * time_per_frame ?w" ?k
         "real_of_int ?k * time_per_frame ?w"]
  have s: "split_by_timestamps (timestamp_begin demo_tokenizer)
             (real_of_int (seek st) * time_per_frame ?w) ?k
             (real_of_int ?k * time_per_frame ?w) [50364, 50364]
           = Inr (map (chunk_segment [50364, 50364] 50364
                         (real_of_int (seek st) * time_per_frame ?w))
                    (zip (0 # slices_of 50364 [50364, 50364]) (slices_of 50364 [50364, 50364])),
                  0)"
    unfolding tb by (simp add: stall_cuts input_stride_def)
  have g: "generate_with_fallback ?w
             (py_slice features (Some (seek st)) (Some (seek st + nb_max_frames ?w)))
             (window_prompt demo_tokenizer default_options st) demo_tokenizer default_options
             (model_state st)
           = Inr (Some (stall_result, - 1 / 6, 0), ())"
    by (rule gwf_stall)
  from window_step_processed [OF g not_skip_stall t s]
  show ?thesis
    by simp
qed

lemma stall_loop_never_returns:
  assumes "segments_loop w tok opts features st = Some y"
  shows "\<not> (w = constant_model stall_result \<and> tok = demo_tokenizer \<and> opts = default_options
            \<and> seek st < content_frames w features)"
proof (rule segments_loop.raw_induct
         [where P = "\<lambda>w tok opts features st y.
                       \<not> (w = constant_model stall_result \<and> tok = demo_tokenizer \<and>
                          opts = default_options \<and> seek st < content_frames w features)",
          OF _ assms])
  fix loop :: "(nat, unit) whisper_model \<Rightarrow> tokenizer \<Rightarrow> transcription_options \<Rightarrow> nat list \<Rightarrow>
               unit loop_state \<Rightarrow> (py_error + unit loop_state) option"
  fix w tok opts features st y
  assume IH: "\<And>w' tok' opts' features' st' y'.
                loop w' tok' opts' features' st' = Some y' \<Longrightarrow>
                \<not> (w' = constant_model stall_result \<and> tok' = demo_tokenizer \<and>
                   opts' = default_options \<and> seek st' < content_frames w' features')"
    and eq: "(if seek st < content_frames w features
              then case window_step w tok opts features st of
                     Inl e \<Rightarrow> Some (Inl e)
                   | Inr st' \<Rightarrow> loop w tok opts features st'
              else Some (Inr st)) = Some y"
  show "\<not> (w = constant_model stall_result \<and> tok = demo_tokenizer \<and> opts = default_options
            \<and> seek st < content_frames w features)"
  proof
    assume a: "w = constant_model stall_result \<and> tok = demo_tokenizer \<and> opts = default_options
            \<and> seek st < content_frames w features"
    from a have e: "w = constant_model stall_result" "tok = demo_tokenizer"
      "opts = default_options" and lt: "seek st < content_frames w features"
      by blast+
    from window_step_stall [of features st] obtain st' where
      s: "window_step (constant_model stall_result) demo_tokenizer default_options features st
           = Inr st'" "seek st' = seek st"
      by blast
    from eq lt s(1) have "loop w tok opts features st' = Some y"
      unfolding e by simp
    from IH [OF this] e lt s(2) show False
      by simp
  qed
qed

lemma stall_generate_segments:
  "generate_segments (constant_model stall_result) (replicate 9000 0) demo_tokenizer
     default_options () = None"
proof (cases "generate_segments (constant_model stall_result) (replicate 9000 0) demo_tokenizer
     default_options ()")
  case None
  then show ?thesis .
next
  case (Some y)
  then have "segments_loop (constant_model stall_result) demo_tokenizer default_options
     (replicate 9000 0) (initial_state demo_tokenizer default_options ()) = Some y"
    by (simp add: generate_segments_def)
  from stall_loop_never_returns [OF this] show ?thesis
    by (simp add: initial_state_def content_frames_def constant_model_def)
qed

lemma never_stalls_good: "never_stalls (constant_model good_result) (timestamp_begin demo_tokenizer)"
  by (auto simp: never_stalls_def constant_model_def good_result_def stalls_def example_no_cuts
        demo_tokenizer_def)

lemma window_step_good_first:
  "window_step (constant_model good_result) demo_tokenizer default_options
     (replicate 9000 0) (initial_state demo_tokenizer default_options ())
   = Inr \<lparr>seek = 3000, all_tokens = [50364, 104, 105, 50414], prompt_reset_since = 0,
          yielded = [\<lparr>seg_start = 0, seg_end = 1, seg_text = [104, 105]\<rparr>],
          model_state = ()\<rparr>"
proof -
  let ?st = "initial_state demo_tokenizer default_options ()"
  let ?w = "constant_model good_result"
  have st: "?st = \<lparr>seek = 0, all_tokens = [], prompt_reset_since = 0,
                    yielded = [], model_state = ()\<rparr>"
    by (simp add: initial_state_def default_options_def)
  have tb: "timestamp_begin demo_tokenizer = 50364"
    by (simp add: demo_tokenizer_def)
  have sz: "segment_size ?w (replicate 9000 0) (seek ?st) = 3000"
    by (simp add: segment_size_def content_frames_def constant_model_def st)
  have tpf: "time_per_frame ?w = 1 / 100"
    by (simp add: constant_model_def)
  have h1: "generate_with_fallback ?w
             (py_slice (replicate 9000 0) (Some (seek ?st)) (Some (seek ?st + nb_max_frames ?w)))
             (window_prompt demo_tokenizer default_options ?st) demo_tokenizer
             default_options (model_state ?st)
           = Inr (Some (good_result, - 1 / 5, 0), ())"
    using gwf_constant by (simp add: st)
  have h2: "\<not> should_skip default_options good_result (- 1 / 5)"
    by (simp add: should_skip_def default_options_def good_result_def Let_def)
  have h3: "sequences_ids good_result = [50364, 104, 105, 50414] # []"
    by (simp add: good_result_def)
  have h4: "split_by_timestamps (timestamp_begin demo_tokenizer)
              (real_of_int (seek ?st) * time_per_frame ?w)
              (segment_size ?w (replicate 9000 0) (seek ?st))
              (real_of_int (segment_size ?w (replicate 9000 0) (seek ?st)) * time_per_frame ?w)
              [50364, 104, 105, 50414]
            = Inr ([\<lparr>rs_start = 0, rs_end = 1, rs_tokens = [50364, 104, 105, 50414]\<rparr>], 3000)"
    unfolding tb sz tpf
    using split_single [OF example_no_cuts, of "real_of_int (seek ?st) * (1 / 100)" 3000
             "real_of_int 3000 * (1 / 100)"]
    by (simp add: st time_precision_def)
  have c: "condition_on_previous_text default_options"
    by (simp add: default_options_def)
  show ?thesis
    apply (simp only: window_step_processed [OF h1 h2 h3 h4])
    apply (simp only: st)
    apply (simp add: c demo_tokenizer_def strip_def isspace_def)
    done
qed

subsection \<open>Further concrete windows\<close>

lemma gwf_constant_model:
  assumes "sequences_ids r = tokens # rest" and "scores r = s # ss" and "tokens \<noteq> []"
    and "temperatures opts = 0 # ts" and "length_penalty opts = 1"
    and "compression_ratio_threshold opts = Some c" and "1 \<le> c"
    and "log_prob_threshold opts = Some l"
    and "l \<le> s * real (length tokens) / (real (length tokens) + 1)"
  shows "generate_with_fallback (constant_model r) fs pr tok opts m
         = Inr (Some (r, s * real (length tokens) / (real (length tokens) + 1), 0), ())"
  using assms
  by (simp add: generate_with_fallback_def decode_attempt_def constant_model_def py_pow_def
        Let_def)

lemma unfinished_cuts:
  "consecutive_timestamps 50364 [50364, 104, 105, 50414, 50414, 106] = [4]"
  "\<not> single_timestamp_ending 50364 [50364, 104, 105, 50414, 50414, 106]"
  by (simp_all add: consecutive_timestamps_def single_timestamp_ending_def upt_rec)

lemma blank_cuts:
  "consecutive_timestamps 50364 [50364, 32, 50414, 50414, 104, 105, 50464] = [3]"
  "single_timestamp_ending 50364 [50364, 32, 50414, 50414, 104, 105, 50464]"
  by (simp_all add: consecutive_timestamps_def single_timestamp_ending_def upt_rec)

lemma split_unfinished:
  "split_by_timestamps 50364 off k dur [50364, 104, 105, 50414, 50414, 106]
   = Inr ([\<lparr>rs_start = off, rs_end = off + 1, rs_tokens = [50364, 104, 105, 50414]\<rparr>], 100)"
  by (simp add: split_by_timestamps_def unfinished_cuts Let_def py_slice_def py_bound_def
        py_get_def time_precision_def input_stride_def)

lemma split_blank:
  "split_by_timestamps 50364 off k dur [50364, 32, 50414, 50414, 104, 105, 50464]
   = Inr ([\<lparr>rs_start = off, rs_end = off + 1, rs_tokens = [50364, 32, 50414]\<rparr>,
           \<lparr>rs_start = off + 1, rs_end = off + 2, rs_tokens = [50414, 104, 105, 50464]\<rparr>], k)"
  by (simp add: split_by_timestamps_def blank_cuts Let_def py_slice_def py_bound_def
        py_get_def time_precision_def input_stride_def)

lemma gwf_unfinished:
  "generate_with_fallback (constant_model unfinished_result) fs pr demo_tokenizer default_options m
   = Inr (Some (unfinished_result, - 3 / 14, 0), ())"
  using gwf_constant_model [of unfinished_result "[50364, 104, 105, 50414, 50414, 106]" "[]"
          "- 1 / 4" "[]" default_options "[2 / 10, 4 / 10, 6 / 10, 8 / 10, 1]" "24 / 10" "- 1"
          fs pr demo_tokenizer m]
  by (simp add: unfinished_result_def default_options_def)

lemma gwf_blank:
  "generate_with_fallback (constant_model blank_result) fs pr demo_tokenizer default_options m
   = Inr (Some (blank_result, - 7 / 32, 0), ())"
  using gwf_constant_model [of blank_result "[50364, 32, 50414, 50414, 104, 105, 50464]" "[]"
          "- 1 / 4" "[]" default_options "[2 / 10, 4 / 10, 6 / 10, 8 / 10, 1]" "24 / 10" "- 1"
          fs pr demo_tokenizer m]
  by (simp add: blank_result_def default_options_def)

lemma gwf_prompted:
  "generate_with_fallback (constant_model good_result) fs pr demo_tokenizer prompted_options m
   = Inr (Some (good_result, - 1 / 5, 0), ())"
  using gwf_constant_model [of good_result "[50364, 104, 105, 50414]" "[]"
          "- 1 / 4" "[]" prompted_options "[2 / 10, 4 / 10, 6 / 10, 8 / 10, 1]" "24 / 10" "- 1"
          fs pr demo_tokenizer m]
  by (simp add: good_result_def default_options_def prompted_options_def)

lemma never_stalls_unfinished:
  "never_stalls (constant_model unfinished_result) (timestamp_begin demo_tokenizer)"
  by (auto simp: never_stalls_def constant_model_def unfinished_result_def stalls_def
        unfinished_cuts demo_tokenizer_def)

lemma window_step_unfinished_first:
  "window_step (constant_model unfinished_result) demo_tokenizer default_options
     (replicate 9000 0) (initial_state demo_tokenizer default_options ())
   = Inr \<lparr>seek = 100, all_tokens = [50364, 104, 105, 50414], prompt_reset_since = 0,
          yielded = [\<lparr>seg_start = 0, seg_end = 1, seg_text = [104, 105]\<rparr>],
          model_state = ()\<rparr>"
proof -
  let ?st = "initial_state demo_tokenizer default_options ()"
  let ?w = "constant_model unfinished_result"
  have st: "?st = \<lparr>seek = 0, all_tokens = [], prompt_reset_since = 0,
                    yielded = [], model_state = ()\<rparr>"
    by (simp add: initial_state_def default_options_def)
  have tb: "timestamp_begin demo_tokenizer = 50364"
    by (simp add: demo_tokenizer_def)
  have g: "generate_with_fallback ?w
             (py_slice (replicate 9000 0) (Some (seek ?st)) (Some (seek ?st + nb_max_frames ?w)))
             (window_prompt demo_tokenizer default_options ?st) demo_tokenizer
             default_options (model_state ?st)
           = Inr (Some (unfinished_result, - 3 / 14, 0), ())"
    by (rule gwf_unfinished)
  have ns: "\<not> should_skip default_options unfinished_result (- 3 / 14)"
    by (simp add: should_skip_def default_options_def unfinished_result_def Let_def)
  have t: "sequences_ids unfinished_result = [50364, 104, 105, 50414, 50414, 106] # []"
    by (simp add: unfinished_result_def)
  have s: "split_by_timestamps (timestamp_begin demo_tokenizer)
              (real_of_int (seek ?st) * time_per_frame ?w)
              (segment_size ?w (replicate 9000 0) (seek ?st))
              (real_of_int (segment_size ?w (replicate 9000 0) (seek ?st)) * time_per_frame ?w)
              [50364, 104, 105, 50414, 50414, 106]
            = Inr ([\<lparr>rs_start = real_of_int (seek ?st) * time_per_frame ?w,
                     rs_end = real_of_int (seek ?st) * time_per_frame ?w + 1,
                     rs_tokens = [50364, 104, 105, 50414]\<rparr>], 100)"
    unfolding tb by (rule split_unfinished)
  have c: "condition_on_previous_text default_options"
    by (simp add: default_options_def)
  show ?thesis
    apply (simp only: window_step_processed [OF g ns t s])
    apply (simp only: st)
    apply (simp add: c demo_tokenizer_def strip_def isspace_def)
    done
qed

lemma window_step_blank_first:
  "window_step (constant_model blank_result) demo_tokenizer default_options
     (replicate 9000 0) (initial_state demo_tokenizer default_options ())
   = Inr \<lparr>seek = 3000, all_tokens = [50364, 32, 50414, 50414, 104, 105, 50464],
          prompt_reset_since = 0,
          yielded = [\<lparr>seg_start = 1, seg_end = 2, seg_text = [104, 105]\<rparr>],
          model_state = ()\<rparr>"
proof -
  let ?st = "initial_state demo_tokenizer default_options ()"
  let ?w = "constant_model blank_result"
  have st: "?st = \<lparr>seek = 0, all_tokens = [], prompt_reset_since = 0,
                    yielded = [], model_state = ()\<rparr>"
    by (simp add: initial_state_def default_options_def)
  have tb: "timestamp_begin demo_tokenizer = 50364"
    by (simp add: demo_tokenizer_def)
  have sz: "segment_size ?w (replicate 9000 0) 0 = 3000"
    by (simp add: segment_size_def content_frames_def constant_model_def)
  have g: "generate_with_fallback ?w
             (py_slice (replicate 9000 0) (Some (seek ?st)) (Some (seek ?st + nb_max_frames ?w)))
             (window_prompt demo_tokenizer default_options ?st) demo_tokenizer
             default_options (model_state ?st)
           = Inr (Some (blank_result, - 7 / 32, 0), ())"
    by (rule gwf_blank)
  have ns: "\<not> should_skip default_options blank_result (- 7 / 32)"
    by (simp add: should_skip_def default_options_def blank_result_def Let_def)
  have t: "sequences_ids blank_result = [50364, 32, 50414, 50414, 104, 105, 50464] # []"
    by (simp add: blank_result_def)
  have s: "split_by_timestamps (timestamp_begin demo_tokenizer)
              (real_of_int (seek ?st) * time_per_frame ?w)
              (segment_size ?w (replicate 9000 0) (seek ?st))
              (real_of_int (segment_size ?w (replicate 9000 0) (seek ?st)) * time_per_frame ?w)
              [50364, 32, 50414, 50414, 104, 105, 50464]
            = Inr ([\<lparr>rs_start = real_of_int (seek ?st) * time_per_frame ?w,
                     rs_end = real_of_int (seek ?st) * time_per_frame ?w + 1,
                     rs_tokens = [50364, 32, 50414]\<rparr>,
                    \<lparr>rs_start = real_of_int (seek ?st) * time_per_frame ?w + 1,
                     rs_end = real_of_int (seek ?st) * time_per_frame ?w + 2,
                     rs_tokens = [50414, 104, 105, 50464]\<rparr>],
                   segment_size ?w (replicate 9000 0) (seek ?st))"
    unfolding tb by (rule split_blank)
  have c: "condition_on_previous_text default_options"
    by (simp add: default_options_def)
  show ?thesis
    apply (simp only: window_step_processed [OF g ns t s])
    apply (simp only: st)
    apply (simp add: c sz demo_tokenizer_def strip_def isspace_def)
    done
qed

lemma window_step_advance:
  assumes "0 < nb_max_frames w" and "seek st < content_frames w features"
    and "window_step w tok opts features st = Inr st'"
  shows "\<exists>result avg temperature m' tokens rest.
           generate_with_fallback w
             (py_slice features (Some (seek st)) (Some (seek st + nb_max_frames w)))
             (window_prompt tok opts st) tok opts (model_state st)
           = Inr (Some (result, avg, temperature), m')
           \<and> sequences_ids result = tokens # rest
           \<and> seek st' = seek st +
               (if should_skip opts result avg
                   \<or> consecutive_timestamps (timestamp_begin tok) tokens = []
                   \<or> single_timestamp_ending (timestamp_begin tok) tokens
                then segment_size w features (seek st)
                else (tokens ! (last (consecutive_timestamps (timestamp_begin tok) tokens) - 1)
                      - timestamp_begin tok) * input_stride)
           \<and> 0 < segment_size w features (seek st)
           \<and> (consecutive_timestamps (timestamp_begin tok) tokens = []
              \<or> 0 \<le> (tokens ! (last (consecutive_timestamps (timestamp_begin tok) tokens) - 1)
                      - timestamp_begin tok) * input_stride)
           \<and> seek st \<le> seek st'
           \<and> (seek st' = seek st \<longleftrightarrow>
                \<not> should_skip opts result avg \<and> stalls (timestamp_begin tok) tokens)"
proof -
  let ?k = "segment_size w features (seek st)"
  let ?tb = "timestamp_begin tok"
  have k: "0 < ?k"
    using assms(1,2) by (rule segment_size_pos)
  from window_step_seek [OF assms(3)] obtain result avg temperature m' tokens rest where
    g: "generate_with_fallback w
             (py_slice features (Some (seek st)) (Some (seek st + nb_max_frames w)))
             (window_prompt tok opts st) tok opts (model_state st)
           = Inr (Some (result, avg, temperature), m')"
    and t: "sequences_ids result = tokens # rest"
    and s: "seek st' = seek st +
               (if should_skip opts result avg then ?k
                else if consecutive_timestamps ?tb tokens = [] \<or>
                        single_timestamp_ending ?tb tokens
                     then ?k
                     else (tokens ! (last (consecutive_timestamps ?tb tokens) - 1)
                           - ?tb) * input_stride)"
    by blast
  let ?a = "(tokens ! (last (consecutive_timestamps ?tb tokens) - 1) - ?tb) * input_stride"
  have s': "seek st' = seek st +
               (if should_skip opts result avg \<or> consecutive_timestamps ?tb tokens = []
                   \<or> single_timestamp_ending ?tb tokens
                then ?k else ?a)"
    using s by simp
  have nn: "consecutive_timestamps ?tb tokens = [] \<or> 0 \<le> ?a"
    using last_boundary_get(2) [of ?tb tokens] by (auto simp: input_stride_def)
  have pr: "seek st \<le> seek st' \<and>
        (seek st' = seek st \<longleftrightarrow> \<not> should_skip opts result avg \<and> stalls ?tb tokens)"
  proof (cases "should_skip opts result avg")
    case True
    with s k show ?thesis by simp
  next
    case False
    with s advance_sign [OF k, of ?tb tokens] show ?thesis
      by (simp del: One_nat_def)
  qed
  from g t s' k nn pr show ?thesis
    by blast
qed

text \<open>
  Claim C1, as amended. With a positive window length \<open>nb_max_frames\<close>, an iteration of the
  window loop that returns adds to \<open>seek\<close>

  \<^item> \<open>segment_size\<close>, which is at least 1, when the window is skipped for silence, when
    its tokens have no consecutive timestamp pair, and when they end in a single timestamp;
  \<^item> \<open>last_timestamp_position * input_stride\<close> otherwise, where
    \<open>last_timestamp_position\<close> is \<open>tokens[last_slice - 1] - timestamp_begin\<close>, the offset of
    the first timestamp of the last consecutive pair; it is not negative.

  So \<open>seek\<close> never decreases, and it is unchanged exactly when the window is not skipped
  and its tokens stall, that is when that offset is zero. When the decoder never answers a
  stalling token sequence, every iteration advances \<open>seek\<close> by at least one frame, and the
  loop, hence \<open>generate_segments\<close>, returns (a value or an exception) from every state.
\<close>

theorem seek_progress_and_termination:
  assumes "0 < nb_max_frames w"
  shows "(seek st < content_frames w features \<and> window_step w tok opts features st = Inr st'
          \<longrightarrow> (\<exists>result avg temperature m' tokens rest.
                 generate_with_fallback w
                   (py_slice features (Some (seek st)) (Some (seek st + nb_max_frames w)))
                   (window_prompt tok opts st) tok opts (model_state st)
                 = Inr (Some (result, avg, temperature), m')
                 \<and> sequences_ids result = tokens # rest
                 \<and> seek st' = seek st +
                     (if should_skip opts result avg
                         \<or> consecutive_timestamps (timestamp_begin tok) tokens = []
                         \<or> single_timestamp_ending (timestamp_begin tok) tokens
                      then segment_size w features (seek st)
                      else (tokens ! (last (consecutive_timestamps (timestamp_begin tok) tokens) - 1)
                            - timestamp_begin tok) * input_stride)
                 \<and> 0 < segment_size w features (seek st)
                 \<and> (consecutive_timestamps (timestamp_begin tok) tokens = []
                    \<or> 0 \<le> (tokens ! (last (consecutive_timestamps (timestamp_begin tok) tokens) - 1)
                            - timestamp_begin tok) * input_stride)
                 \<and> seek st \<le> seek st'
                 \<and> (seek st' = seek st \<longleftrightarrow>
                      \<not> should_skip opts result avg \<and> stalls (timestamp_begin tok) tokens)))
       \<and> (never_stalls w (timestamp_begin tok)
          \<longrightarrow> (seek st < content_frames w features \<and> window_step w tok opts features st = Inr st'
                \<longrightarrow> seek st < seek st')
              \<and> (\<exists>r. segments_loop w tok opts features st = Some r)
              \<and> (\<exists>r. generate_segments w features tok opts m = Some r))"
proof (intro conjI impI)
  assume a: "seek st < content_frames w features \<and> window_step w tok opts features st = Inr st'"
  then have "seek st < content_frames w features" "window_step w tok opts features st = Inr st'"
    by blast+
  then show "\<exists>result avg temperature m' tokens rest.
                 generate_with_fallback w
                   (py_slice features (Some (seek st)) (Some (seek st + nb_max_frames w)))
                   (window_prompt tok opts st) tok opts (model_state st)
                 = Inr (Some (result, avg, temperature), m')
                 \<and> sequences_ids result = tokens # rest
                 \<and> seek st' = seek st +
                     (if should_skip opts result avg
                         \<or> consecutive_timestamps (timestamp_begin tok) tokens = []
                         \<or> single_timestamp_ending (timestamp_begin tok) tokens
                      then segment_size w features (seek st)
                      else (tokens ! (last (consecutive_timestamps (timestamp_begin tok) tokens) - 1)
                            - timestamp_begin tok) * input_stride)
                 \<and> 0 < segment_size w features (seek st)
                 \<and> (consecutive_timestamps (timestamp_begin tok) tokens = []
                    \<or> 0 \<le> (tokens ! (last (consecutive_timestamps (timestamp_begin tok) tokens) - 1)
                            - timestamp_begin tok) * input_stride)
                 \<and> seek st \<le> seek st'
                 \<and> (seek st' = seek st \<longleftrightarrow>
                      \<not> should_skip opts result avg \<and> stalls (timestamp_begin tok) tokens)"
    by (rule window_step_advance [OF assms])
next
  assume "never_stalls w (timestamp_begin tok)"
    and "seek st < content_frames w features \<and> window_step w tok opts features st = Inr st'"
  then show "seek st < seek st'"
    using never_stalls_progress [OF _ assms, of tok st features opts st'] by blast
next
  assume "never_stalls w (timestamp_begin tok)"
  then show "\<exists>r. segments_loop w tok opts features st = Some r"
    using assms by (rule segments_loop_returns)
next
  assume "never_stalls w (timestamp_begin tok)"
  then show "\<exists>r. generate_segments w features tok opts m = Some r"
    unfolding generate_segments_def using assms by (rule segments_loop_returns)
qed

text \<open>
  Witness for claim C1, on 90 s of audio with the default options. The decoder that always
  answers \<open>0.0s h i 1.0s 1.0s j\<close> is in the consecutive-timestamp branch without a
  single-timestamp ending: the first window moves \<open>seek\<close> from 0 to 100, twice the offset
  50 of \<open>1.0s\<close>. The decoder that always answers \<open>0.0s h i 1.0s\<close> has no consecutive
  pair: the first window moves \<open>seek\<close> from 0 to 3000. Neither stalls, and both
  transcriptions return.
\<close>

theorem seek_progress_and_termination_witness:
  "0 < nb_max_frames (constant_model unfinished_result)
   \<and> seek (initial_state demo_tokenizer default_options ())
       < content_frames (constant_model unfinished_result) (replicate 9000 (0 :: nat))
   \<and> window_step (constant_model unfinished_result) demo_tokenizer default_options
       (replicate 9000 0) (initial_state demo_tokenizer default_options ())
     = Inr \<lparr>seek = 100, all_tokens = [50364, 104, 105, 50414], prompt_reset_since = 0,
            yielded = [\<lparr>seg_start = 0, seg_end = 1, seg_text = [104, 105]\<rparr>],
            model_state = ()\<rparr>
   \<and> seek (initial_state demo_tokenizer default_options ()) +
       ([50364, 104, 105, 50414, 50414, 106]
          ! (last (consecutive_timestamps (timestamp_begin demo_tokenizer)
                     [50364, 104, 105, 50414, 50414, 106]) - 1)
        - timestamp_begin demo_tokenizer) * input_stride = 100
   \<and> never_stalls (constant_model unfinished_result) (timestamp_begin demo_tokenizer)
   \<and> (\<exists>r. generate_segments (constant_model unfinished_result) (replicate 9000 0)
            demo_tokenizer default_options () = Some r)
   \<and> window_step (constant_model good_result) demo_tokenizer default_options
       (replicate 9000 0) (initial_state demo_tokenizer default_options ())
     = Inr \<lparr>seek = 3000, all_tokens = [50364, 104, 105, 50414], prompt_reset_since = 0,
            yielded = [\<lparr>seg_start = 0, seg_end = 1, seg_text = [104, 105]\<rparr>],
            model_state = ()\<rparr>
   \<and> segment_size (constant_model good_result) (replicate 9000 (0 :: nat)) 0 = 3000
   \<and> never_stalls (constant_model good_result) (timestamp_begin demo_tokenizer)
   \<and> (\<exists>r. generate_segments (constant_model good_result) (replicate 9000 0)
            demo_tokenizer default_options () = Some r)"
proof -
  let ?w = "constant_model unfinished_result"
  let ?v = "constant_model good_result"
  let ?st = "initial_state demo_tokenizer default_options ()"
  let ?st' = "\<lparr>seek = 100, all_tokens = [50364, 104, 105, 50414], prompt_reset_since = 0,
            yielded = [\<lparr>seg_start = 0, seg_end = 1, seg_text = [104, 105]\<rparr>],
            model_state = ()\<rparr>"
  let ?st'' = "\<lparr>seek = 3000, all_tokens = [50364, 104, 105, 50414], prompt_reset_since = 0,
            yielded = [\<lparr>seg_start = 0, seg_end = 1, seg_text = [104, 105]\<rparr>],
            model_state = ()\<rparr>"
  have nb: "0 < nb_max_frames ?w"
    by (simp add: constant_model_def)
  have nb': "0 < nb_max_frames ?v"
    by (simp add: constant_model_def)
  have cf: "seek ?st < content_frames ?w (replicate 9000 (0 :: nat))"
    by (simp add: initial_state_def content_frames_def constant_model_def)
  have sz: "segment_size ?v (replicate 9000 (0 :: nat)) 0 = 3000"
    by (simp add: segment_size_def content_frames_def constant_model_def)
  have tb: "timestamp_begin demo_tokenizer = 50364"
    by (simp add: demo_tokenizer_def)
  have amount: "seek ?st +
       ([50364, 104, 105, 50414, 50414, 106]
          ! (last (consecutive_timestamps (timestamp_begin demo_tokenizer)
                     [50364, 104, 105, 50414, 50414, 106]) - 1)
        - timestamp_begin demo_tokenizer) * input_stride = 100"
    unfolding tb by (simp add: unfinished_cuts input_stride_def initial_state_def)
  note inst = seek_progress_and_termination
         [OF nb, of ?st "replicate 9000 0" demo_tokenizer default_options ?st' "()"]
  from inst never_stalls_unfinished
  have ret: "\<exists>r. generate_segments ?w (replicate 9000 0) demo_tokenizer default_options ()
               = Some r"
    by blast
  note inst' = seek_progress_and_termination
         [OF nb', of ?st "replicate 9000 0" demo_tokenizer default_options ?st'' "()"]
  from inst' never_stalls_good
  have ret': "\<exists>r. generate_segments ?v (replicate 9000 0) demo_tokenizer default_options ()
               = Some r"
    by blast
  from nb cf window_step_unfinished_first amount never_stalls_unfinished ret
    window_step_good_first sz never_stalls_good ret'
  show ?thesis
    by (intro conjI)
qed

text \<open>
  Counterexample to claim C1 as stated. A decoder that answers the two tokens
  \<open>0.0s 0.0s\<close> for every window, on 90 s of audio with the default options: the window is
  not a no-speech skip, it is in the consecutive-timestamp branch without a
  single-timestamp ending, the advance \<open>last_timestamp_position * input_stride\<close> is 0,
  \<open>seek\<close> is 0 after the iteration as before it, and \<open>generate_segments\<close> does not return.
\<close>

theorem seek_stalls_counterexample:
  "window_step (constant_model stall_result) demo_tokenizer default_options (replicate 9000 0)
     (initial_state demo_tokenizer default_options ())
   = Inr \<lparr>seek = 0, all_tokens = [50364], prompt_reset_since = 0, yielded = [],
          model_state = ()\<rparr>
   \<and> seek (initial_state demo_tokenizer default_options ()) = 0
   \<and> 0 < content_frames (constant_model stall_result) (replicate 9000 (0 :: nat))
   \<and> \<not> should_skip default_options stall_result (- 1 / 6)
   \<and> consecutive_timestamps (timestamp_begin demo_tokenizer) [50364, 50364] = [1]
   \<and> \<not> single_timestamp_ending (timestamp_begin demo_tokenizer) [50364, 50364]
   \<and> ([50364, 50364] ! (1 - 1) - timestamp_begin demo_tokenizer) * input_stride = 0
   \<and> generate_segments (constant_model stall_result) (replicate 9000 0) demo_tokenizer
       default_options () = None"
proof -
  let ?st = "initial_state demo_tokenizer default_options ()"
  let ?w = "constant_model stall_result"
  have st: "?st = \<lparr>seek = 0, all_tokens = [], prompt_reset_since = 0,
                    yielded = [], model_state = ()\<rparr>"
    by (simp add: initial_state_def default_options_def)
  have tb: "timestamp_begin demo_tokenizer = 50364"
    by (simp add: demo_tokenizer_def)
  have g: "generate_with_fallback ?w
             (py_slice (replicate 9000 0) (Some (seek ?st)) (Some (seek ?st + nb_max_frames ?w)))
             (window_prompt demo_tokenizer default_options ?st) demo_tokenizer default_options
             (model_state ?st)
           = Inr (Some (stall_result, - 1 / 6, 0), ())"
    by (rule gwf_stall)
  have t: "sequences_ids stall_result = [50364, 50364] # []"
    by (simp add: stall_result_def)
  have ne: "consecutive_timestamps 50364 [50364, 50364] \<noteq> []"
    by (simp add: stall_cuts)
  have sl: "slices_of 50364 [50364, 50364] = [1]"
    by (simp add: slices_of_def stall_cuts)
  from split_consecutive [OF ne, of "real_of_int (seek ?st) * time_per_frame ?w"
         "segment_size ?w (replicate 9000 0) (seek ?st)"
         "real_of_int (segment_size ?w (replicate 9000 0) (seek ?st)) * time_per_frame ?w"]
  have s: "split_by_timestamps (timestamp_begin demo_tokenizer)
             (real_of_int (seek ?st) * time_per_frame ?w)
             (segment_size ?w (replicate 9000 0) (seek ?st))
             (real_of_int (segment_size ?w (replicate 9000 0) (seek ?st)) * time_per_frame ?w)
             [50364, 50364]
           = Inr ([\<lparr>rs_start = 0, rs_end = 0, rs_tokens = [50364]\<rparr>], 0)"
    unfolding tb sl
    by (simp add: stall_cuts input_stride_def chunk_segment_def st)
  have c: "condition_on_previous_text default_options"
    by (simp add: default_options_def)
  have step: "window_step ?w demo_tokenizer default_options (replicate 9000 0) ?st
    = Inr \<lparr>seek = 0, all_tokens = [50364], prompt_reset_since = 0, yielded = [],
           model_state = ()\<rparr>"
    apply (simp only: window_step_processed [OF g not_skip_stall t s])
    apply (simp only: st)
    apply (simp add: c demo_tokenizer_def strip_def isspace_def)
    done
  have cf: "0 < content_frames ?w (replicate 9000 (0 :: nat))"
    by (simp add: content_frames_def constant_model_def)
  have z: "([50364, 50364] ! (1 - 1) - timestamp_begin demo_tokenizer) * input_stride = 0"
    by (simp add: tb)
  from step st cf not_skip_stall stall_cuts z stall_generate_segments show ?thesis
    unfolding tb by simp
qed

subsection \<open>The segments of a window in the state of the loop\<close>

text \<open>
  Claim C9. In a pass of the window loop that returns, the fallback decoder has answered a
  result with a first token sequence. When the window is skipped, \<open>all_tokens\<close> and the
  segments yielded are as before. When it is not skipped, the tokens are cut into raw
  segments, and, in the order of the raw segments: the tokens of every raw segment are
  appended to the \<open>all_tokens\<close> of the loop, whatever its text is, and a segment with its
  start, its end and its decoded text is yielded exactly when the decoded text is not empty
  after stripping. So a raw segment with an empty text yields nothing and still grows the
  token history.
\<close>

theorem window_segments_history_and_yield:
  assumes "window_step w tok opts features st = Inr st'"
  shows "\<exists>result avg temperature m' tokens rest.
           generate_with_fallback w
             (py_slice features (Some (seek st)) (Some (seek st + nb_max_frames w)))
             (window_prompt tok opts st) tok opts (model_state st)
           = Inr (Some (result, avg, temperature), m')
           \<and> sequences_ids result = tokens # rest
           \<and> (if should_skip opts result avg
              then all_tokens st' = all_tokens st \<and> yielded st' = yielded st
              else (\<exists>segs advance.
                      split_by_timestamps (timestamp_begin tok)
                        (real_of_int (seek st) * time_per_frame w)
                        (segment_size w features (seek st))
                        (real_of_int (segment_size w features (seek st)) * time_per_frame w)
                        tokens
                      = Inr (segs, advance)
                      \<and> all_tokens st' = all_tokens st @ concat (map rs_tokens segs)
                      \<and> yielded st' = yielded st @
                          map (\<lambda>s. \<lparr>seg_start = rs_start s, seg_end = rs_end s,
                                     seg_text = decode tok (rs_tokens s)\<rparr>)
                            (filter (\<lambda>s. strip (decode tok (rs_tokens s)) \<noteq> []) segs)))"
proof -
  let ?g = "generate_with_fallback w
             (py_slice features (Some (seek st)) (Some (seek st + nb_max_frames w)))
             (window_prompt tok opts st) tok opts (model_state st)"
  let ?k = "segment_size w features (seek st)"
  from assms obtain result avg temperature m' where
    g: "?g = Inr (Some (result, avg, temperature), m')"
    by (auto simp: window_step_def Let_def split: sum.splits option.splits prod.splits)
  from generate_with_fallback_generate [OF g] obtain tokens rest where
    t: "sequences_ids result = tokens # rest"
    by blast
  show ?thesis
  proof (cases "should_skip opts result avg")
    case True
    with assms g have "st' = skip_window ?k m' st"
      by (simp add: window_step_def Let_def)
    then have "all_tokens st' = all_tokens st \<and> yielded st' = yielded st"
      by (simp add: skip_window_def)
    with g t True show ?thesis
      by auto
  next
    case False
    from split_total [of "timestamp_begin tok" "real_of_int (seek st) * time_per_frame w" ?k
           "real_of_int ?k * time_per_frame w" tokens]
    obtain segs advance where
      s: "split_by_timestamps (timestamp_begin tok) (real_of_int (seek st) * time_per_frame w) ?k
            (real_of_int ?k * time_per_frame w) tokens = Inr (segs, advance)"
      by blast
    from window_step_processed [OF g False t s] assms have
      "all_tokens st' = all_tokens st @ concat (map rs_tokens segs)
       \<and> yielded st' = yielded st @
            map (\<lambda>s. \<lparr>seg_start = rs_start s, seg_end = rs_end s,
                       seg_text = decode tok (rs_tokens s)\<rparr>)
              (filter (\<lambda>s. strip (decode tok (rs_tokens s)) \<noteq> []) segs)"
      by auto
    with g t s False show ?thesis
      by auto
  qed
qed

text \<open>
  Witness for claim C9. The decoder answers \<open>0.0s " " 1.0s 1.0s h i 2.0s\<close> for the first
  window of 90 s of audio: the raw segment \<open>0.0s " " 1.0s\<close> has a blank text and yields
  nothing, the raw segment \<open>1.0s h i 2.0s\<close> is yielded, and the seven tokens are all in
  \<open>all_tokens\<close>.
\<close>

theorem window_segments_history_and_yield_witness:
  "window_step (constant_model blank_result) demo_tokenizer default_options
     (replicate 9000 0) (initial_state demo_tokenizer default_options ())
   = Inr \<lparr>seek = 3000, all_tokens = [50364, 32, 50414, 50414, 104, 105, 50464],
          prompt_reset_since = 0,
          yielded = [\<lparr>seg_start = 1, seg_end = 2, seg_text = [104, 105]\<rparr>],
          model_state = ()\<rparr>
   \<and> \<not> should_skip default_options blank_result (- 7 / 32)
   \<and> split_by_timestamps (timestamp_begin demo_tokenizer) 0 3000 30
       [50364, 32, 50414, 50414, 104, 105, 50464]
     = Inr ([\<lparr>rs_start = 0, rs_end = 1, rs_tokens = [50364, 32, 50414]\<rparr>,
             \<lparr>rs_start = 1, rs_end = 2, rs_tokens = [50414, 104, 105, 50464]\<rparr>], 3000)
   \<and> strip (decode demo_tokenizer [50364, 32, 50414]) = []
   \<and> strip (decode demo_tokenizer [50414, 104, 105, 50464]) = [104, 105]"
proof -
  have tb: "timestamp_begin demo_tokenizer = 50364"
    by (simp add: demo_tokenizer_def)
  have ns: "\<not> should_skip default_options blank_result (- 7 / 32)"
    by (simp add: should_skip_def default_options_def blank_result_def Let_def)
  have s: "split_by_timestamps (timestamp_begin demo_tokenizer) 0 3000 30
       [50364, 32, 50414, 50414, 104, 105, 50464]
     = Inr ([\<lparr>rs_start = 0, rs_end = 1, rs_tokens = [50364, 32, 50414]\<rparr>,
             \<lparr>rs_start = 1, rs_end = 2, rs_tokens = [50414, 104, 105, 50464]\<rparr>], 3000)"
    unfolding tb using split_blank [of 0 3000 30] by simp
  have d: "strip (decode demo_tokenizer [50364, 32, 50414]) = []"
    "strip (decode demo_tokenizer [50414, 104, 105, 50464]) = [104, 105]"
    by (simp_all add: demo_tokenizer_def strip_def isspace_def)
  from window_segments_history_and_yield [OF window_step_blank_first]
    window_step_blank_first ns s d
  show ?thesis
    by blast
qed

subsection \<open>The initial prompt\<close>

text \<open>
  Every pass of the loop extends \<open>all_tokens\<close>, so the tokens the loop starts with stay at
  its front.
\<close>

lemma window_step_all_tokens:
  assumes "window_step w tok opts features st = Inr st'"
  shows "\<exists>ys. all_tokens st' = all_tokens st @ ys"
proof -
  let ?g = "generate_with_fallback w
             (py_slice features (Some (seek st)) (Some (seek st + nb_max_frames w)))
             (window_prompt tok opts st) tok opts (model_state st)"
  let ?k = "segment_size w features (seek st)"
  from assms obtain result avg temperature m' where
    g: "?g = Inr (Some (result, avg, temperature), m')"
    by (auto simp: window_step_def Let_def split: sum.splits option.splits prod.splits)
  from generate_with_fallback_generate [OF g] obtain tokens rest where
    t: "sequences_ids result = tokens # rest"
    by blast
  show ?thesis
  proof (cases "should_skip opts result avg")
    case True
    with assms g have "st' = skip_window ?k m' st"
      by (simp add: window_step_def Let_def)
    then show ?thesis
      by (simp add: skip_window_def)
  next
    case False
    from split_total [of "timestamp_begin tok" "real_of_int (seek st) * time_per_frame w" ?k
           "real_of_int ?k * time_per_frame w" tokens]
    obtain segs advance where
      s: "split_by_timestamps (timestamp_begin tok) (real_of_int (seek st) * time_per_frame w) ?k
            (real_of_int ?k * time_per_frame w) tokens = Inr (segs, advance)"
      by blast
    from window_step_processed [OF g False t s] assms show ?thesis
      by auto
  qed
qed

lemma segments_loop_all_tokens:
  fixes w :: "('f, 'm) whisper_model"
  assumes "segments_loop w tok opts features st = Some y"
  shows "\<forall>st'. y = Inr st' \<longrightarrow> (\<exists>ys. all_tokens st' = all_tokens st @ ys)"
proof (rule segments_loop.raw_induct
         [where P = "\<lambda>w tok opts features st y.
                       \<forall>st'. y = Inr st' \<longrightarrow> (\<exists>ys. all_tokens st' = all_tokens st @ ys)",
          OF _ assms])
  fix loop :: "('f, 'm) whisper_model \<Rightarrow> tokenizer \<Rightarrow> transcription_options \<Rightarrow> 'f list \<Rightarrow>
               'm loop_state \<Rightarrow> (py_error + 'm loop_state) option"
  fix w tok opts features st y
  assume IH: "\<And>w' tok' opts' features' st' y'.
                loop w' tok' opts' features' st' = Some y' \<Longrightarrow>
                \<forall>st''. y' = Inr st'' \<longrightarrow> (\<exists>ys. all_tokens st'' = all_tokens st' @ ys)"
    and eq: "(if seek st < content_frames w features
              then case window_step w tok opts features st of
                     Inl e \<Rightarrow> Some (Inl e)
                   | Inr st' \<Rightarrow> loop w tok opts features st'
              else Some (Inr st)) = Some y"
  show "\<forall>st'. y = Inr st' \<longrightarrow> (\<exists>ys. all_tokens st' = all_tokens st @ ys)"
  proof (intro allI impI)
    fix st'
    assume y: "y = Inr st'"
    show "\<exists>ys. all_tokens st' = all_tokens st @ ys"
    proof (cases "seek st < content_frames w features")
      case False
      with eq y show ?thesis
        by simp
    next
      case True
      show ?thesis
      proof (cases "window_step w tok opts features st")
        case (Inl e)
        with eq True y show ?thesis
          by simp
      next
        case (Inr st1)
        with eq True have "loop w tok opts features st1 = Some y"
          by simp
        from IH [OF this] y obtain ys where a: "all_tokens st' = all_tokens st1 @ ys"
          by blast
        from window_step_all_tokens [OF Inr] obtain zs where
          b: "all_tokens st1 = all_tokens st @ zs"
          by blast
        from a b show ?thesis
          by simp
      qed
    qed
  qed
qed

text \<open>
  Claim C10. When an initial prompt is given, the transcription runs the window loop from
  the state in which \<open>seek\<close> and \<open>prompt_reset_since\<close> are 0 and \<open>all_tokens\<close> is the
  encoding of one space followed by the stripped prompt. These tokens are the previous-text
  context of the first window: its pass calls the fallback decoder with the prompt built
  from them, and when there is at least one frame of content the transcription is that
  pass followed by the rest of the loop. The tokens, which the decoder never produced,
  are still at the front of \<open>all_tokens\<close> when the transcription returns.
\<close>

theorem initial_prompt_starts_first_window:
  assumes "initial_prompt opts = Some p"
  shows "generate_segments w features tok opts m
           = segments_loop w tok opts features
               \<lparr>seek = 0, all_tokens = encode tok (32 # strip p), prompt_reset_since = 0,
                yielded = [], model_state = m\<rparr>
       \<and> previous_tokens
           \<lparr>seek = 0, all_tokens = encode tok (32 # strip p), prompt_reset_since = 0,
            yielded = [], model_state = m\<rparr> = encode tok (32 # strip p)
       \<and> window_step w tok opts features
           \<lparr>seek = 0, all_tokens = encode tok (32 # strip p), prompt_reset_since = 0,
            yielded = [], model_state = m\<rparr>
         = (case generate_with_fallback w
                   (py_slice features (Some 0) (Some (nb_max_frames w)))
                   (get_prompt tok (encode tok (32 # strip p)) (without_timestamps opts)
                      (prefix opts))
                   tok opts m of
              Inl e \<Rightarrow> Inl e
            | Inr (None, m') \<Rightarrow> Inl AttributeError
            | Inr (Some (result, avg, temperature), m') \<Rightarrow>
                if should_skip opts result avg
                then Inr (skip_window (segment_size w features 0) m'
                       \<lparr>seek = 0, all_tokens = encode tok (32 # strip p),
                        prompt_reset_since = 0, yielded = [], model_state = m\<rparr>)
                else process_window tok opts 0 (segment_size w features 0)
                       (real_of_int (segment_size w features 0) * time_per_frame w)
                       result temperature m'
                       \<lparr>seek = 0, all_tokens = encode tok (32 # strip p),
                        prompt_reset_since = 0, yielded = [], model_state = m\<rparr>)
       \<and> (0 < content_frames w features \<longrightarrow>
            generate_segments w features tok opts m
            = (case window_step w tok opts features
                      \<lparr>seek = 0, all_tokens = encode tok (32 # strip p),
                       prompt_reset_since = 0, yielded = [], model_state = m\<rparr> of
                 Inl e \<Rightarrow> Some (Inl e)
               | Inr st' \<Rightarrow> segments_loop w tok opts features st'))
       \<and> (generate_segments w features tok opts m = Some (Inr st') \<longrightarrow>
            (\<exists>ys. all_tokens st' = encode tok (32 # strip p) @ ys))"
proof -
  let ?s0 = "\<lparr>seek = 0, all_tokens = encode tok (32 # strip p), prompt_reset_since = 0,
              yielded = [], model_state = m\<rparr>"
  have init: "initial_state tok opts m = ?s0"
    using assms by (simp add: initial_state_def)
  have gs: "generate_segments w features tok opts m = segments_loop w tok opts features ?s0"
    by (simp add: generate_segments_def init)
  have pt: "previous_tokens ?s0 = encode tok (32 # strip p)"
    using slice_from [of "encode tok (32 # strip p)" 0] by (simp add: previous_tokens_def)
  have ws: "window_step w tok opts features ?s0
         = (case generate_with_fallback w
                   (py_slice features (Some 0) (Some (nb_max_frames w)))
                   (get_prompt tok (encode tok (32 # strip p)) (without_timestamps opts)
                      (prefix opts))
                   tok opts m of
              Inl e \<Rightarrow> Inl e
            | Inr (None, m') \<Rightarrow> Inl AttributeError
            | Inr (Some (result, avg, temperature), m') \<Rightarrow>
                if should_skip opts result avg
                then Inr (skip_window (segment_size w features 0) m' ?s0)
                else process_window tok opts 0 (segment_size w features 0)
                       (real_of_int (segment_size w features 0) * time_per_frame w)
                       result temperature m' ?s0)"
    by (simp add: window_step_def window_prompt_def pt Let_def)
  have first: "0 < content_frames w features \<longrightarrow>
            generate_segments w features tok opts m
            = (case window_step w tok opts features ?s0 of
                 Inl e \<Rightarrow> Some (Inl e)
               | Inr st' \<Rightarrow> segments_loop w tok opts features st')"
    unfolding gs by (subst segments_loop.simps) simp
  have pre: "generate_segments w features tok opts m = Some (Inr st') \<longrightarrow>
            (\<exists>ys. all_tokens st' = encode tok (32 # strip p) @ ys)"
  proof
    assume "generate_segments w features tok opts m = Some (Inr st')"
    then have "segments_loop w tok opts features ?s0 = Some (Inr st')"
      by (simp only: gs)
    from segments_loop_all_tokens [OF this] show "\<exists>ys. all_tokens st' = encode tok (32 # strip p) @ ys"
      by simp
  qed
  from gs pt ws first pre show ?thesis
    by (intro conjI)
qed

lemma window_step_prompted_first:
  "window_step (constant_model good_result) demo_tokenizer prompted_options
     (replicate 3001 0)
     \<lparr>seek = 0, all_tokens = [32, 104, 105], prompt_reset_since = 0, yielded = [],
      model_state = ()\<rparr>
   = Inr \<lparr>seek = 1, all_tokens = [32, 104, 105, 50364, 104, 105, 50414],
          prompt_reset_since = 0,
          yielded = [\<lparr>seg_start = 0, seg_end = 1, seg_text = [104, 105]\<rparr>],
          model_state = ()\<rparr>"
proof -
  let ?st = "\<lparr>seek = 0, all_tokens = [32, 104, 105], prompt_reset_since = 0, yielded = [],
      model_state = ()\<rparr> :: unit loop_state"
  let ?w = "constant_model good_result"
  have tb: "timestamp_begin demo_tokenizer = 50364"
    by (simp add: demo_tokenizer_def)
  have sz: "segment_size ?w (replicate 3001 0) (seek ?st) = 1"
    by (simp add: segment_size_def content_frames_def constant_model_def)
  have tpf: "time_per_frame ?w = 1 / 100"
    by (simp add: constant_model_def)
  have h1: "generate_with_fallback ?w
             (py_slice (replicate 3001 0) (Some (seek ?st)) (Some (seek ?st + nb_max_frames ?w)))
             (window_prompt demo_tokenizer prompted_options ?st) demo_tokenizer
             prompted_options (model_state ?st)
           = Inr (Some (good_result, - 1 / 5, 0), ())"
    by (rule gwf_prompted)
  have h2: "\<not> should_skip prompted_options good_result (- 1 / 5)"
    by (simp add: should_skip_def prompted_options_def default_options_def good_result_def
          Let_def)
  have h3: "sequences_ids good_result = [50364, 104, 105, 50414] # []"
    by (simp add: good_result_def)
  have h4: "split_by_timestamps (timestamp_begin demo_tokenizer)
              (real_of_int (seek ?st) * time_per_frame ?w)
              (segment_size ?w (replicate 3001 0) (seek ?st))
              (real_of_int (segment_size ?w (replicate 3001 0) (seek ?st)) * time_per_frame ?w)
              [50364, 104, 105, 50414]
            = Inr ([\<lparr>rs_start = 0, rs_end = 1, rs_tokens = [50364, 104, 105, 50414]\<rparr>], 1)"
    unfolding tb sz tpf
    using split_single [OF example_no_cuts, of "real_of_int (seek ?st) * (1 / 100)" 1
             "real_of_int 1 * (1 / 100)"]
    by (simp add: time_precision_def)
  have c: "condition_on_previous_text prompted_options"
    by (simp add: prompted_options_def default_options_def)
  show ?thesis
    apply (simp only: window_step_processed [OF h1 h2 h3 h4])
    apply (simp add: c demo_tokenizer_def strip_def isspace_def)
    done
qed

text \<open>
  Witness for claim C10: the initial prompt \<^verbatim>\<open>" hi "\<close> on 30.01 s of audio, with a decoder
  that answers \<open>0.0s h i 1.0s\<close>. The context of the only window is \<^verbatim>\<open>" hi"\<close>, its prompt
  has these three tokens after the previous-text marker, and the transcription returns
  with them in front of the four tokens of the window.
\<close>

theorem initial_prompt_starts_first_window_witness:
  "initial_prompt prompted_options = Some [32, 104, 105, 32]
   \<and> encode demo_tokenizer (32 # strip [32, 104, 105, 32]) = [32, 104, 105]
   \<and> get_prompt demo_tokenizer (encode demo_tokenizer (32 # strip [32, 104, 105, 32]))
       (without_timestamps prompted_options) (prefix prompted_options)
     = [50361, 32, 104, 105, 50258, 50259, 50359]
   \<and> 0 < content_frames (constant_model good_result) (replicate 3001 (0 :: nat))
   \<and> generate_segments (constant_model good_result) (replicate 3001 0) demo_tokenizer
       prompted_options ()
     = Some (Inr \<lparr>seek = 1, all_tokens = [32, 104, 105, 50364, 104, 105, 50414],
                  prompt_reset_since = 0,
                  yielded = [\<lparr>seg_start = 0, seg_end = 1, seg_text = [104, 105]\<rparr>],
                  model_state = ()\<rparr>)"
proof -
  let ?w = "constant_model good_result"
  let ?st1 = "\<lparr>seek = 1, all_tokens = [32, 104, 105, 50364, 104, 105, 50414],
                  prompt_reset_since = 0,
                  yielded = [\<lparr>seg_start = 0, seg_end = 1, seg_text = [104, 105]\<rparr>],
                  model_state = ()\<rparr> :: unit loop_state"
  have ip: "initial_prompt prompted_options = Some [32, 104, 105, 32]"
    by (simp add: prompted_options_def)
  have enc: "encode demo_tokenizer (32 # strip [32, 104, 105, 32]) = [32, 104, 105]"
    by (simp add: demo_tokenizer_def strip_def isspace_def)
  have pr: "get_prompt demo_tokenizer (encode demo_tokenizer (32 # strip [32, 104, 105, 32]))
       (without_timestamps prompted_options) (prefix prompted_options)
     = [50361, 32, 104, 105, 50258, 50259, 50359]"
    unfolding enc using slice_last_n [of 223 "[32, 104, 105::int]"]
    by (simp add: get_prompt_def prompted_options_def default_options_def demo_tokenizer_def
          max_length_def)
  have cf: "0 < content_frames ?w (replicate 3001 (0 :: nat))"
    by (simp add: content_frames_def constant_model_def)
  have stop: "segments_loop ?w demo_tokenizer prompted_options (replicate 3001 0) ?st1
              = Some (Inr ?st1)"
    by (subst segments_loop.simps) (simp add: content_frames_def constant_model_def)
  from initial_prompt_starts_first_window
         [OF ip, of ?w "replicate 3001 0" demo_tokenizer "()" ?st1] cf
  have "generate_segments ?w (replicate 3001 0) demo_tokenizer prompted_options ()
        = (case window_step ?w demo_tokenizer prompted_options (replicate 3001 0)
                  \<lparr>seek = 0,
                   all_tokens = encode demo_tokenizer (32 # strip [32, 104, 105, 32]),
                   prompt_reset_since = 0, yielded = [], model_state = ()\<rparr> of
             Inl e \<Rightarrow> Some (Inl e)
           | Inr st' \<Rightarrow> segments_loop ?w demo_tokenizer prompted_options (replicate 3001 0) st')"
    by blast
  then have gs: "generate_segments ?w (replicate 3001 0) demo_tokenizer prompted_options ()
        = Some (Inr ?st1)"
    unfolding enc by (simp only: window_step_prompted_first sum.case stop)
  from ip enc pr cf gs show ?thesis
    by (intro conjI)
qed

end
